theory Spec2Isabelle
  imports Complex_Main "HOL-Library.AList"
begin

section \<open>Values shared by all components\<close>

text \<open>
  JavaScript numbers are modelled as real numbers: the rounding of IEEE doubles is not
  part of the model. Where the source divides by a number that can be zero, or computes
  with the result of such a division, the value is a \<open>jsnum\<close>, with the special values of
  the language. \<open>Num 0\<close> is the zero of positive sign and \<open>NegZero\<close> the one of negative sign;
  the sign of a zero changes a result only when the zero is a divisor, so a result that is
  zero is given as \<open>Num 0\<close>.
  An exception is a value of \<open>js_error\<close>; a function that can throw returns
  \<open>js_error + 'a\<close>, with \<open>Inl\<close> for the exception. A rejected promise of an
  \<^verbatim>\<open>async\<close> function is the same \<open>Inl\<close>.
\<close>

datatype js_error =
    TypeError
  | ReferenceError
  | Error string
  | ClientError string

datatype jsnum = Num real | NegZero | PosInfinity | NegInfinity | NaN

text \<open>
  Reading a property of an object literal by a computed name, as in \<^verbatim>\<open>weights[name]\<close>. The
  object has its own properties, which here hold numbers, and it inherits the properties
  of \<^verbatim>\<open>Object.prototype\<close>: eleven functions and the accessor \<^verbatim>\<open>__proto__\<close>, which gives an
  object. An inherited value is truthy and converts to the number NaN. Any other name
  gives \<^verbatim>\<open>undefined\<close>, here \<open>None\<close>.
\<close>

datatype jsprop = NumberProp real | InheritedProp

definition objectPrototypeNames :: "string list" where
  "objectPrototypeNames =
     [''constructor'', ''__defineGetter__'', ''__defineSetter__'', ''hasOwnProperty'',
      ''__lookupGetter__'', ''__lookupSetter__'', ''isPrototypeOf'', ''propertyIsEnumerable'',
      ''toString'', ''valueOf'', ''__proto__'', ''toLocaleString'']"

definition getProperty :: "(string \<rightharpoonup> real) \<Rightarrow> string \<Rightarrow> jsprop option" where
  "getProperty own name =
     (case own name of
        Some x \<Rightarrow> Some (NumberProp x)
      | None \<Rightarrow> if name \<in> set objectPrototypeNames then Some InheritedProp else None)"

text \<open>\<^verbatim>\<open>p || d\<close>: \<^verbatim>\<open>undefined\<close> and the number 0 are falsy and give the default.\<close>

definition orDefault :: "jsprop option \<Rightarrow> real \<Rightarrow> jsprop" where
  "orDefault p d =
     (case p of
        None \<Rightarrow> NumberProp d
      | Some (NumberProp x) \<Rightarrow> if x = 0 then NumberProp d else NumberProp x
      | Some InheritedProp \<Rightarrow> InheritedProp)"

type_synonym route = string

section \<open>Dynamic call distribution (config/system.js, class DynamicCallDistribution)\<close>

record route_metrics =
  latency :: real
  load :: real
  reliability :: real

definition LATENCY_WEIGHT :: real where
  "LATENCY_WEIGHT = 0.4"

definition LOAD_WEIGHT :: real where
  "LOAD_WEIGHT = 0.3"

definition RELIABILITY_WEIGHT :: real where
  "RELIABILITY_WEIGHT = 0.3"

definition calculateRouteWeight :: "route_metrics \<Rightarrow> real" where
  "calculateRouteWeight ms =
     (let normalizedLatency = 1 - (min (latency ms) 200 / 200)
      in LATENCY_WEIGHT * normalizedLatency
         + LOAD_WEIGHT * (1 - load ms)
         + RELIABILITY_WEIGHT * reliability ms)"

text \<open>
  The entries of the \<^verbatim>\<open>weightedRoutes\<close> map. A JavaScript \<^verbatim>\<open>Map\<close> keeps its keys in the
  order of their first insertion and \<^verbatim>\<open>set\<close> on a present key replaces the value in place:
  that is \<open>AList.update\<close> on an association list.
\<close>

record weighted_route =
  weight :: real
  metrics :: route_metrics

record optimal_route =
  selectedRoute :: route
  selectedMetrics :: route_metrics
  selectedWeight :: real

definition getAvailableRoutes :: "'ns \<Rightarrow> route list" where
  "getAvailableRoutes networkState = [''route1'', ''route2'', ''route3'', ''route4'']"

text \<open>
  The loop of \<^verbatim>\<open>getOptimalRoute\<close>. The three measurements of a route are simulated with
  \<^verbatim>\<open>Math.random\<close> in the source; here they are the parameter \<open>metricsFor\<close>.
\<close>

definition weighRoutes :: "(route \<Rightarrow> route_metrics) \<Rightarrow> route list \<Rightarrow> (route \<times> weighted_route) list" where
  "weighRoutes metricsFor availableRoutes =
     fold (\<lambda>r weightedRoutes.
             AList.update r \<lparr>weight = calculateRouteWeight (metricsFor r), metrics = metricsFor r\<rparr>
               weightedRoutes)
       availableRoutes []"

text \<open>
  \<^verbatim>\<open>Array.prototype.sort\<close> is stable, and the comparator \<^verbatim>\<open>b[1].weight - a[1].weight\<close>
  orders by descending weight: a stable sort on the negated weight.
\<close>

definition rankRoutes :: "(route \<Rightarrow> route_metrics) \<Rightarrow> route list \<Rightarrow> (route \<times> weighted_route) list" where
  "rankRoutes metricsFor availableRoutes =
     sort_key (\<lambda>e. - weight (snd e)) (weighRoutes metricsFor availableRoutes)"

text \<open>
  The body of \<^verbatim>\<open>getOptimalRoute\<close> once the candidates are known. On an empty array
  \<^verbatim>\<open>sortedRoutes[0]\<close> is \<^verbatim>\<open>undefined\<close> and reading its element 0 throws a TypeError.
\<close>

definition getOptimalRouteFrom :: "(route \<Rightarrow> route_metrics) \<Rightarrow> route list \<Rightarrow> js_error + optimal_route" where
  "getOptimalRouteFrom metricsFor availableRoutes =
     (case rankRoutes metricsFor availableRoutes of
        [] \<Rightarrow> Inl TypeError
      | e # _ \<Rightarrow> Inr \<lparr>selectedRoute = fst e,
                      selectedMetrics = metrics (snd e),
                      selectedWeight = weight (snd e)\<rparr>)"

definition getOptimalRoute :: "(route \<Rightarrow> route_metrics) \<Rightarrow> 'ns \<Rightarrow> 'cr \<Rightarrow> js_error + optimal_route" where
  "getOptimalRoute metricsFor networkState callRequest =
     getOptimalRouteFrom metricsFor (getAvailableRoutes networkState)"

section \<open>Least-cost routing (src/core/lcr.js, class LeastCostRouting)\<close>

text \<open>
  A route's cost information: \<^verbatim>\<open>costs\<close> and \<^verbatim>\<open>weights\<close> may each be absent, and an
  element of \<^verbatim>\<open>weights\<close> may be \<^verbatim>\<open>undefined\<close> (\<open>None\<close>).
\<close>

record route_cost_info =
  costs :: "real list option"
  weights :: "real option list option"

definition DELAY_PENALTY_FACTOR :: real where
  "DELAY_PENALTY_FACTOR = 0.2"

text \<open>
  \<^verbatim>\<open>weights[i] || 1\<close>: an index past the end and an \<^verbatim>\<open>undefined\<close> element give 1, and so
  does the falsy number 0.
\<close>

definition weightOr1 :: "real option list \<Rightarrow> nat \<Rightarrow> real" where
  "weightOr1 ws i =
     (if i < length ws
      then (case ws ! i of None \<Rightarrow> 1 | Some w \<Rightarrow> if w = 0 then 1 else w)
      else 1)"

definition calculateTotalCost :: "route_cost_info \<Rightarrow> real \<Rightarrow> real" where
  "calculateTotalCost rt dly =
     (let routeCosts = (case costs rt of None \<Rightarrow> [] | Some cs \<Rightarrow> cs);
          ws = (case weights rt of None \<Rightarrow> [] | Some l \<Rightarrow> l);
          weightedCost =
            fold (\<lambda>i acc. acc + weightOr1 ws i * (routeCosts ! i)) [0..<length routeCosts] 0;
          delayPenalty = DELAY_PENALTY_FACTOR * dly
      in weightedCost + delayPenalty)"

record route_cost =
  totalCost :: real
  delay :: real
  costInfo :: route_cost_info

record cheapest_route =
  cheapestRoute :: route
  cheapestMetrics :: route_cost

text \<open>
  The simulated cost table and delay measurement of the source are the parameters
  \<open>getRouteCosts\<close> and \<open>measureDelay\<close>.
\<close>

definition costRoutes ::
  "(route \<Rightarrow> route_cost_info) \<Rightarrow> (route \<Rightarrow> real) \<Rightarrow> route list \<Rightarrow> (route \<times> route_cost) list" where
  "costRoutes getRouteCosts measureDelay availableRoutes =
     fold (\<lambda>routeId routeCosts.
             AList.update routeId
               \<lparr>totalCost = calculateTotalCost (getRouteCosts routeId) (measureDelay routeId),
                delay = measureDelay routeId,
                costInfo = getRouteCosts routeId\<rparr>
               routeCosts)
       availableRoutes []"

definition rankByCost ::
  "(route \<Rightarrow> route_cost_info) \<Rightarrow> (route \<Rightarrow> real) \<Rightarrow> route list \<Rightarrow> (route \<times> route_cost) list" where
  "rankByCost getRouteCosts measureDelay availableRoutes =
     sort_key (\<lambda>e. totalCost (snd e)) (costRoutes getRouteCosts measureDelay availableRoutes)"

definition findOptimalRoute ::
  "(route \<Rightarrow> route_cost_info) \<Rightarrow> (route \<Rightarrow> real) \<Rightarrow> route list \<Rightarrow> js_error + cheapest_route" where
  "findOptimalRoute getRouteCosts measureDelay availableRoutes =
     (case rankByCost getRouteCosts measureDelay availableRoutes of
        [] \<Rightarrow> Inl TypeError
      | e # _ \<Rightarrow> Inr \<lparr>cheapestRoute = fst e, cheapestMetrics = snd e\<rparr>)"

section \<open>Anomaly detection (src/monitoring/anomaly_detection.js)\<close>

subsection \<open>The arithmetic of the special number values\<close>

text \<open>\<^verbatim>\<open>value - mean\<close> for a number \<open>v\<close>.\<close>

fun js_minus :: "real \<Rightarrow> jsnum \<Rightarrow> jsnum" where
  "js_minus v (Num m) = Num (v - m)"
| "js_minus v NegZero = Num v"
| "js_minus v PosInfinity = NegInfinity"
| "js_minus v NegInfinity = PosInfinity"
| "js_minus v NaN = NaN"

text \<open>\<^verbatim>\<open>Math.abs(x)\<close>.\<close>

fun js_abs :: "jsnum \<Rightarrow> jsnum" where
  "js_abs (Num x) = Num \<bar>x\<bar>"
| "js_abs NegZero = Num 0"
| "js_abs PosInfinity = PosInfinity"
| "js_abs NegInfinity = PosInfinity"
| "js_abs NaN = NaN"

text \<open>
  \<^verbatim>\<open>a / b\<close>. A finite number divided by a zero is an infinity whose sign is the product
  of the signs, and 0 / 0, an infinity by an infinity and anything with NaN are NaN.
\<close>

fun js_divide :: "jsnum \<Rightarrow> jsnum \<Rightarrow> jsnum" where
  "js_divide NaN b = NaN"
| "js_divide a NaN = NaN"
| "js_divide (Num a) (Num b) =
     (if b \<noteq> 0 then Num (a / b)
      else if 0 < a then PosInfinity
      else if a < 0 then NegInfinity
      else NaN)"
| "js_divide (Num a) NegZero =
     (if 0 < a then NegInfinity else if a < 0 then PosInfinity else NaN)"
| "js_divide (Num a) PosInfinity = Num 0"
| "js_divide (Num a) NegInfinity = Num 0"
| "js_divide NegZero (Num b) = (if b \<noteq> 0 then Num 0 else NaN)"
| "js_divide NegZero NegZero = NaN"
| "js_divide NegZero PosInfinity = Num 0"
| "js_divide NegZero NegInfinity = Num 0"
| "js_divide PosInfinity (Num b) = (if 0 \<le> b then PosInfinity else NegInfinity)"
| "js_divide PosInfinity NegZero = NegInfinity"
| "js_divide NegInfinity (Num b) = (if 0 \<le> b then NegInfinity else PosInfinity)"
| "js_divide NegInfinity NegZero = PosInfinity"
| "js_divide PosInfinity PosInfinity = NaN"
| "js_divide PosInfinity NegInfinity = NaN"
| "js_divide NegInfinity PosInfinity = NaN"
| "js_divide NegInfinity NegInfinity = NaN"

fun js_greater :: "jsnum \<Rightarrow> real \<Rightarrow> bool" where
  "js_greater (Num x) t = (t < x)"
| "js_greater NegZero t = (t < 0)"
| "js_greater PosInfinity t = True"
| "js_greater NegInfinity t = False"
| "js_greater NaN t = False"

fun js_less :: "jsnum \<Rightarrow> real \<Rightarrow> bool" where
  "js_less (Num x) t = (x < t)"
| "js_less NegZero t = (0 < t)"
| "js_less PosInfinity t = False"
| "js_less NegInfinity t = True"
| "js_less NaN t = False"

fun js_times :: "jsnum \<Rightarrow> real \<Rightarrow> jsnum" where
  "js_times (Num x) w = Num (x * w)"
| "js_times NegZero w = Num 0"
| "js_times PosInfinity w = (if 0 < w then PosInfinity else if w < 0 then NegInfinity else NaN)"
| "js_times NegInfinity w = (if 0 < w then NegInfinity else if w < 0 then PosInfinity else NaN)"
| "js_times NaN w = NaN"

fun js_plus :: "jsnum \<Rightarrow> jsnum \<Rightarrow> jsnum" where
  "js_plus (Num x) (Num y) = Num (x + y)"
| "js_plus (Num x) NegZero = Num x"
| "js_plus NegZero (Num y) = Num y"
| "js_plus NegZero NegZero = NegZero"
| "js_plus NaN y = NaN"
| "js_plus x NaN = NaN"
| "js_plus PosInfinity NegInfinity = NaN"
| "js_plus NegInfinity PosInfinity = NaN"
| "js_plus PosInfinity y = PosInfinity"
| "js_plus x PosInfinity = PosInfinity"
| "js_plus NegInfinity y = NegInfinity"
| "js_plus x NegInfinity = NegInfinity"

text \<open>\<^verbatim>\<open>Math.min(1, x)\<close>.\<close>

fun js_min1 :: "jsnum \<Rightarrow> jsnum" where
  "js_min1 (Num x) = Num (min 1 x)"
| "js_min1 NegZero = NegZero"
| "js_min1 PosInfinity = Num 1"
| "js_min1 NegInfinity = NegInfinity"
| "js_min1 NaN = NaN"

text \<open>
  \<^verbatim>\<open>deviation > threshold\<close> and \<^verbatim>\<open>deviation * weight\<close> where the right operand was read from
  an object: an inherited value converts to NaN, so the comparison is false and the
  product is NaN.
\<close>

fun js_greater_prop :: "jsnum \<Rightarrow> jsprop \<Rightarrow> bool" where
  "js_greater_prop x (NumberProp t) = js_greater x t"
| "js_greater_prop x InheritedProp = False"

fun js_times_prop :: "jsnum \<Rightarrow> jsprop \<Rightarrow> jsnum" where
  "js_times_prop x (NumberProp w) = js_times x w"
| "js_times_prop x InheritedProp = NaN"

subsection \<open>The detector\<close>

text \<open>
  A stored baseline. Its mean is the quotient computed by \<^verbatim>\<open>updateBaseline\<close>, any number
  value of the language.
\<close>

record baseline =
  mean :: jsnum
  stdDev :: real
  lastUpdated :: real

text \<open>
  \<^verbatim>\<open>baselineMetrics\<close> is a \<^verbatim>\<open>Map\<close>; \<^verbatim>\<open>anomalyThresholds\<close> is an object literal, given here
  by its own properties and read with \<open>getProperty\<close>.
\<close>

record anomaly_detection_system =
  baselineMetrics :: "string \<rightharpoonup> baseline"
  anomalyThresholds :: "string \<rightharpoonup> real"

definition new_AnomalyDetectionSystem :: anomaly_detection_system where
  "new_AnomalyDetectionSystem =
     \<lparr>baselineMetrics = Map.empty,
      anomalyThresholds = [''callVolume'' \<mapsto> 0.3, ''duration'' \<mapsto> 0.25,
                           ''failureRate'' \<mapsto> 0.2, ''latency'' \<mapsto> 0.15]\<rparr>"

record anomaly_report =
  isAnomaly :: bool
  deviation :: jsnum
  threshold :: jsprop
  baselineMean :: jsnum
  currentValue :: real
  timestamp :: real

text \<open>
  \<open>NoBaseline\<close> is the object \<^verbatim>\<open>{ isAnomaly: false, reason: 'No baseline established' }\<close>.
  The parameter \<open>now\<close> is the reading of \<^verbatim>\<open>Date.now()\<close>.
\<close>

datatype detection = NoBaseline | Deviation anomaly_report

text \<open>\<^verbatim>\<open>this.anomalyThresholds[metricName] || 0.2\<close>.\<close>

definition thresholdFor :: "anomaly_detection_system \<Rightarrow> string \<Rightarrow> jsprop" where
  "thresholdFor self metricName = orDefault (getProperty (anomalyThresholds self) metricName) 0.2"

definition detectAnomaly :: "real \<Rightarrow> anomaly_detection_system \<Rightarrow> string \<Rightarrow> real \<Rightarrow> detection" where
  "detectAnomaly now self metricName v =
     (case baselineMetrics self metricName of
        None \<Rightarrow> NoBaseline
      | Some b \<Rightarrow>
          (let thr = thresholdFor self metricName;
               dev = js_divide (js_abs (js_minus v (mean b))) (mean b)
           in Deviation \<lparr>isAnomaly = js_greater_prop dev thr,
                          deviation = dev,
                          threshold = thr,
                          baselineMean = mean b,
                          currentValue = v,
                          timestamp = now\<rparr>))"

text \<open>
  A flagged anomaly is the report with a \<^verbatim>\<open>type\<close> added (the object spread of the source);
  the model keeps the report as one field.
\<close>

record anomaly =
  atype :: string
  report :: anomaly_report

record call_metrics =
  callVolume :: "real option"
  avgDuration :: "real option"
  failureRate :: "real option"

text \<open>
  One \<^verbatim>\<open>if (metrics.field) { ... }\<close> block of \<^verbatim>\<open>processCallMetrics\<close>: the condition is the
  truthiness of the field, so an absent field and the number 0 both skip the block.
\<close>

definition checkMetric ::
  "real \<Rightarrow> anomaly_detection_system \<Rightarrow> string \<Rightarrow> real option \<Rightarrow> anomaly list" where
  "checkMetric now self metricName field =
     (case field of
        None \<Rightarrow> []
      | Some v \<Rightarrow>
          if v = 0 then []
          else (case detectAnomaly now self metricName v of
                  NoBaseline \<Rightarrow> []
                | Deviation r \<Rightarrow>
                    if isAnomaly r then [\<lparr>atype = metricName, report = r\<rparr>] else []))"

definition processCallMetrics ::
  "real \<Rightarrow> anomaly_detection_system \<Rightarrow> call_metrics \<Rightarrow> anomaly list" where
  "processCallMetrics now self ms =
     checkMetric now self ''callVolume'' (callVolume ms)
     @ checkMetric now self ''duration'' (avgDuration ms)
     @ checkMetric now self ''failureRate'' (failureRate ms)"

subsection \<open>The risk score\<close>

record risk_assessment =
  score :: jsnum
  level :: string
  anomalyCount :: "nat option"
  riskTimestamp :: "real option"

text \<open>The own properties of the object literal \<^verbatim>\<open>weights\<close>.\<close>

definition riskWeights :: "string \<rightharpoonup> real" where
  "riskWeights = [''callVolume'' \<mapsto> 0.3, ''duration'' \<mapsto> 0.2, ''failureRate'' \<mapsto> 0.5]"

text \<open>\<^verbatim>\<open>weights[anomaly.type] || 0.2\<close>.\<close>

definition riskWeight :: "string \<Rightarrow> jsprop" where
  "riskWeight ty = orDefault (getProperty riskWeights ty) 0.2"

definition calculateRiskScore :: "real \<Rightarrow> anomaly list \<Rightarrow> risk_assessment" where
  "calculateRiskScore now anomalies =
     (if anomalies = []
      then \<lparr>score = Num 0, level = ''low'', anomalyCount = None, riskTimestamp = None\<rparr>
      else
        (let totalScore =
               fold (\<lambda>a total.
                       js_plus total (js_times_prop (deviation (report a)) (riskWeight (atype a))))
                 anomalies (Num 0);
             normalizedScore = js_min1 totalScore;
             lvl = (if js_less normalizedScore 0.3 then ''low''
                    else if js_less normalizedScore 0.7 then ''medium''
                    else ''high'')
         in \<lparr>score = normalizedScore,
             level = lvl,
             anomalyCount = Some (length anomalies),
             riskTimestamp = Some now\<rparr>))"

section \<open>The framework (src/core/lcr.js, class CallRoutingFramework)\<close>

record verification_result =
  verified :: bool
  attestationLevel :: "string option"
  errorCode :: "string option"

record call_request =
  requestId :: string

record call_monitoring =
  monitoringId :: string
  startTime :: real
  monitoredRoute :: route
  monitoredMetrics :: route_metrics
  monitoredAnomalies :: "anomaly list"

record system_metrics =
  totalCalls :: nat
  successfulCalls :: nat
  failedCalls :: nat

text \<open>
  The state of the framework that the call pipeline reads and writes. \<^verbatim>\<open>activeCalls\<close> is
  a \<^verbatim>\<open>Map\<close>: an association list under \<open>AList.update\<close> and \<open>AList.delete\<close>.
\<close>

record framework =
  anomalyDetection :: anomaly_detection_system
  activeCalls :: "(string \<times> call_monitoring) list"
  systemMetrics :: system_metrics

definition new_CallRoutingFramework :: framework where
  "new_CallRoutingFramework =
     \<lparr>anomalyDetection = new_AnomalyDetectionSystem,
      activeCalls = [],
      systemMetrics = \<lparr>totalCalls = 0, successfulCalls = 0, failedCalls = 0\<rparr>\<rparr>"

text \<open>
  What the collaborators and the clock answer during one invocation: the reading of
  \<^verbatim>\<open>Date.now()\<close> (taken as constant during the invocation), the result of
  \<^verbatim>\<open>stirShaken.processIncomingCall\<close>, the simulated measurements, the encrypted channel,
  and whether the promise of \<^verbatim>\<open>analytics.logCall\<close> resolves (\<open>None\<close>) or is rejected
  with an error.
\<close>

record call_env =
  envNow :: real
  envVerification :: verification_result
  envMetricsFor :: "route \<Rightarrow> route_metrics"
  envRouteCosts :: "route \<Rightarrow> route_cost_info"
  envDelay :: "route \<Rightarrow> real"
  envEncryptedChannel :: string
  envLogCall :: "js_error option"

record call_result =
  success :: bool
  resultCallId :: string
  resultRoute :: route
  encryptedChannel :: string
  verificationStatus :: "string option"

record call_summary =
  summaryCallId :: string
  duration :: real
  summaryRoute :: route
  summaryMetrics :: route_metrics

definition calculateAverageDuration :: "real \<Rightarrow> framework \<Rightarrow> real" where
  "calculateAverageDuration now fw =
     (if length (activeCalls fw) = 0 then 0
      else
        (let totalDuration =
               fold (\<lambda>c acc. acc + (now - startTime c) / 1000) (map snd (activeCalls fw)) 0
         in totalDuration / real (length (activeCalls fw))))"

definition calculateFailureRate :: "framework \<Rightarrow> real" where
  "calculateFailureRate fw =
     (if totalCalls (systemMetrics fw) = 0 then 0
      else real (failedCalls (systemMetrics fw)) / real (totalCalls (systemMetrics fw)) * 100)"

text \<open>
  Step 5 of \<^verbatim>\<open>processCall\<close>: the current system metrics, all three present, are given to
  the detector.
\<close>

definition callAnomalies :: "real \<Rightarrow> framework \<Rightarrow> anomaly list" where
  "callAnomalies now fw =
     (let callMetrics =
            \<lparr>callVolume = Some (real (totalCalls (systemMetrics fw))),
             avgDuration = Some (calculateAverageDuration now fw),
             failureRate = Some (calculateFailureRate fw)\<rparr>
      in processCallMetrics now (anomalyDetection fw) callMetrics)"

text \<open>A template literal prints \<^verbatim>\<open>null\<close> as the text null.\<close>

definition showCode :: "string option \<Rightarrow> string" where
  "showCode c = (case c of None \<Rightarrow> ''null'' | Some t \<Rightarrow> t)"

text \<open>
  The \<^verbatim>\<open>try\<close> block of \<^verbatim>\<open>processCall\<close>. The constant \<^verbatim>\<open>riskScore\<close> is declared inside the
  block of \<^verbatim>\<open>if (anomalies.length > 0)\<close>, so the later \<^verbatim>\<open>riskScore.score\<close>, evaluated only
  when there are anomalies, is outside its scope and throws a ReferenceError; by then the
  session is stored.
\<close>

definition processCallTry ::
  "call_env \<Rightarrow> call_request \<Rightarrow> framework \<Rightarrow> (js_error + call_result) \<times> framework" where
  "processCallTry env callRequest fw =
     (let verificationResult = envVerification env in
      if \<not> verified verificationResult
      then (Inl (Error (''Call verification failed: '' @ showCode (errorCode verificationResult))), fw)
      else
        (case getOptimalRoute (envMetricsFor env) () callRequest of
           Inl e \<Rightarrow> (Inl e, fw)
         | Inr optimalRoute \<Rightarrow>
             (case findOptimalRoute (envRouteCosts env) (envDelay env) [selectedRoute optimalRoute] of
                Inl e \<Rightarrow> (Inl e, fw)
              | Inr routeCosts \<Rightarrow>
                  (let anomalies = callAnomalies (envNow env) fw
                   in
                     if length anomalies > 0
                        \<and> level (calculateRiskScore (envNow env) anomalies) = ''high''
                     then (Inl (Error ''High-risk call detected''), fw)
                     else
                       (let callMonitoring =
                              \<lparr>monitoringId = requestId callRequest,
                               startTime = envNow env,
                               monitoredRoute = selectedRoute optimalRoute,
                               monitoredMetrics = selectedMetrics optimalRoute,
                               monitoredAnomalies = anomalies\<rparr>;
                            fw' = fw\<lparr>activeCalls :=
                                       AList.update (requestId callRequest) callMonitoring
                                         (activeCalls fw)\<rparr>
                        in
                          if length anomalies > 0 then (Inl ReferenceError, fw')
                          else
                            (case envLogCall env of
                               Some e \<Rightarrow> (Inl e, fw')
                             | None \<Rightarrow>
                                 (Inr \<lparr>success = True,
                                       resultCallId = requestId callRequest,
                                       resultRoute = selectedRoute optimalRoute,
                                       encryptedChannel = envEncryptedChannel env,
                                       verificationStatus = attestationLevel verificationResult\<rparr>,
                                  fw')))))))"

text \<open>The \<^verbatim>\<open>catch\<close> block: count the failure and throw the error again.\<close>

definition processCall ::
  "call_env \<Rightarrow> call_request \<Rightarrow> framework \<Rightarrow> (js_error + call_result) \<times> framework" where
  "processCall env callRequest fw =
     (case processCallTry env callRequest fw of
        (Inl e, fw') \<Rightarrow>
          (Inl e, fw'\<lparr>systemMetrics :=
                        (systemMetrics fw')\<lparr>failedCalls := failedCalls (systemMetrics fw') + 1\<rparr>\<rparr>)
      | (Inr r, fw') \<Rightarrow> (Inr r, fw'))"

definition endCall ::
  "call_env \<Rightarrow> string \<Rightarrow> framework \<Rightarrow> (js_error + call_summary) \<times> framework" where
  "endCall env callId fw =
     (case map_of (activeCalls fw) callId of
        None \<Rightarrow> (Inl (Error ''Call not found''), fw)
      | Some c \<Rightarrow>
          (let dur = (envNow env - startTime c) / 1000;
               fw' = fw\<lparr>activeCalls := AList.delete callId (activeCalls fw)\<rparr>
           in
             (case envLogCall env of
                Some e \<Rightarrow> (Inl e, fw')
              | None \<Rightarrow>
                  (Inr \<lparr>summaryCallId = callId,
                        duration = dur,
                        summaryRoute = monitoredRoute c,
                        summaryMetrics = monitoredMetrics c\<rparr>,
                   fw'))))"

text \<open>
  The states the framework can be in: the constructed one, and the ones after a call to
  \<^verbatim>\<open>processCall\<close> or \<^verbatim>\<open>endCall\<close>, or after the host replaced a baseline of the detector.
\<close>

inductive reachable :: "framework \<Rightarrow> bool" where
  reachable_new: "reachable new_CallRoutingFramework"
| reachable_processCall: "reachable fw \<Longrightarrow> reachable (snd (processCall env callRequest fw))"
| reachable_endCall: "reachable fw \<Longrightarrow> reachable (snd (endCall env callId fw))"
| reachable_baseline:
    "reachable fw \<Longrightarrow>
     reachable (fw\<lparr>anomalyDetection :=
                     (anomalyDetection fw)\<lparr>baselineMetrics :=
                        (baselineMetrics (anomalyDetection fw))(metricName \<mapsto> b)\<rparr>\<rparr>)"

text \<open>
  The state after step 6 of \<^verbatim>\<open>processCall\<close>, \<^verbatim>\<open>activeCalls.set(callRequest.id, callMonitoring)\<close>,
  for the route that was selected.
\<close>

definition storeSession :: "call_env \<Rightarrow> call_request \<Rightarrow> optimal_route \<Rightarrow> framework \<Rightarrow> framework" where
  "storeSession env req opt fw =
     fw\<lparr>activeCalls :=
          AList.update (requestId req)
            \<lparr>monitoringId = requestId req, startTime = envNow env,
             monitoredRoute = selectedRoute opt,
             monitoredMetrics = selectedMetrics opt,
             monitoredAnomalies = callAnomalies (envNow env) fw\<rparr>
            (activeCalls fw)\<rparr>"

section \<open>Example data\<close>

text \<open>A detector whose three call metrics have a baseline of mean 100.\<close>

definition exampleDetector :: anomaly_detection_system where
  "exampleDetector =
     new_AnomalyDetectionSystem
       \<lparr>baselineMetrics :=
          [''callVolume'' \<mapsto> \<lparr>mean = Num 100, stdDev = 5, lastUpdated = 0\<rparr>,
           ''duration'' \<mapsto> \<lparr>mean = Num 100, stdDev = 5, lastUpdated = 0\<rparr>,
           ''failureRate'' \<mapsto> \<lparr>mean = Num 100, stdDev = 5, lastUpdated = 0\<rparr>]\<rparr>"

text \<open>
  A detector whose call volume has a baseline of mean 0 and whose latency has a baseline
  of mean -0.
\<close>

definition zeroMeanDetector :: anomaly_detection_system where
  "zeroMeanDetector =
     new_AnomalyDetectionSystem
       \<lparr>baselineMetrics := [''callVolume'' \<mapsto> \<lparr>mean = Num 0, stdDev = 0, lastUpdated = 0\<rparr>,
                            ''latency'' \<mapsto> \<lparr>mean = NegZero, stdDev = 0, lastUpdated = 0\<rparr>]\<rparr>"

text \<open>Measurements under which all routes tie, all but one tie, or are out of range.\<close>

definition equalMetrics :: "route \<Rightarrow> route_metrics" where
  "equalMetrics r = \<lparr>latency = 50, load = 0.2, reliability = 0.98\<rparr>"

definition tieMetrics :: "route \<Rightarrow> route_metrics" where
  "tieMetrics r =
     (if r = ''route3'' then \<lparr>latency = 0, load = 0, reliability = 1\<rparr>
      else \<lparr>latency = 50, load = 0.2, reliability = 0.98\<rparr>)"

definition outOfRangeMetrics :: "route \<Rightarrow> route_metrics" where
  "outOfRangeMetrics r = \<lparr>latency = - 100, load = 2, reliability = 3\<rparr>"

definition equalCosts :: "route \<Rightarrow> route_cost_info" where
  "equalCosts r = \<lparr>costs = Some [4, 2, 1], weights = Some [Some 0.5, Some 0.3, Some 0.2]\<rparr>"

text \<open>The anomaly that the detector flags for a call volume of 5 on a baseline of mean 0.\<close>

definition infiniteAnomaly :: anomaly where
  "infiniteAnomaly =
     \<lparr>atype = ''callVolume'',
      report = \<lparr>isAnomaly = True, deviation = PosInfinity, threshold = NumberProp 0.3,
                baselineMean = Num 0, currentValue = 5, timestamp = 7\<rparr>\<rparr>"

text \<open>
  Collaborators of a call that is verified, routed and logged; the same with a failing
  log, at a later time with other measurements, and with a failed verification; and the
  state in which the call \<open>call-1\<close> is live.
\<close>

definition exampleEnv :: call_env where
  "exampleEnv =
     \<lparr>envNow = 1000,
      envVerification = \<lparr>verified = True, attestationLevel = Some ''A'', errorCode = None\<rparr>,
      envMetricsFor = equalMetrics,
      envRouteCosts = equalCosts,
      envDelay = (\<lambda>r. 40),
      envEncryptedChannel = ''ciphertext'',
      envLogCall = None\<rparr>"

definition failingLogEnv :: call_env where
  "failingLogEnv = exampleEnv\<lparr>envLogCall := Some (ClientError ''No Living connections'')\<rparr>"

definition laterEnv :: call_env where
  "laterEnv = exampleEnv\<lparr>envNow := 2000, envMetricsFor := tieMetrics\<rparr>"

definition exampleLive :: framework where
  "exampleLive =
     \<lparr>anomalyDetection = new_AnomalyDetectionSystem,
      activeCalls =
        [(''call-1'',
          \<lparr>monitoringId = ''call-1'', startTime = 1000, monitoredRoute = ''route1'',
           monitoredMetrics = \<lparr>latency = 50, load = 0.2, reliability = 0.98\<rparr>,
           monitoredAnomalies = []\<rparr>)],
      systemMetrics = \<lparr>totalCalls = 0, successfulCalls = 0, failedCalls = 0\<rparr>\<rparr>"

definition unverifiedEnv :: call_env where
  "unverifiedEnv =
     failingLogEnv
       \<lparr>envVerification :=
          \<lparr>verified = False, attestationLevel = None, errorCode = Some ''NO_PASSPORT''\<rparr>\<rparr>"

definition exampleRequest :: call_request where
  "exampleRequest = \<lparr>requestId = ''call-1''\<rparr>"

text \<open>An anomaly of a given type and finite deviation.\<close>

definition exampleAnomaly :: "string \<Rightarrow> real \<Rightarrow> anomaly" where
  "exampleAnomaly ty d =
     \<lparr>atype = ty,
      report = \<lparr>isAnomaly = True, deviation = Num d, threshold = NumberProp 0.2,
                baselineMean = Num 100, currentValue = 100 + 100 * d, timestamp = 0\<rparr>\<rparr>"

section \<open>Properties of the route score\<close>

text \<open>
  C1. For a metrics record with latency at least 0 and load and reliability in [0,1], the
  score is 0.4 * (1 - min(latency, 200) / 200) + 0.3 * (1 - load) + 0.3 * reliability;
  latency 50, load 0.2 and reliability 0.98 give the score 0.834.
\<close>

theorem calculateRouteWeight_formula:
  assumes "0 \<le> latency ms" and "0 \<le> load ms" and "load ms \<le> 1"
    and "0 \<le> reliability ms" and "reliability ms \<le> 1"
  shows "calculateRouteWeight ms
           = 0.4 * (1 - min (latency ms) 200 / 200) + 0.3 * (1 - load ms) + 0.3 * reliability ms
         \<and> calculateRouteWeight \<lparr>latency = 50, load = 0.2, reliability = 0.98\<rparr> = 0.834"
  by (simp add: calculateRouteWeight_def LATENCY_WEIGHT_def LOAD_WEIGHT_def RELIABILITY_WEIGHT_def)

theorem calculateRouteWeight_formula_witness:
  "(0::real) \<le> 50 \<and> (0::real) \<le> 0.2 \<and> (0.2::real) \<le> 1 \<and> (0::real) \<le> 0.98 \<and> (0.98::real) \<le> 1
   \<and> calculateRouteWeight \<lparr>latency = 50, load = 0.2, reliability = 0.98\<rparr>
       = 0.4 * (1 - min 50 200 / 200) + 0.3 * (1 - 0.2) + 0.3 * 0.98"
  using calculateRouteWeight_formula [of "\<lparr>latency = 50, load = 0.2, reliability = 0.98\<rparr>"]
  by simp

section \<open>Route selection on an empty candidate list\<close>

text \<open>
  C2. The spec asks for a NoRoutesAvailable error on an empty candidate set. Both
  \<^verbatim>\<open>findOptimalRoute\<close> and the body of \<^verbatim>\<open>getOptimalRoute\<close> read element 0 of the first
  entry of an empty sorted array, which throws a TypeError.
\<close>

theorem empty_candidates_throw_TypeError:
  "findOptimalRoute getRouteCosts measureDelay [] = Inl TypeError
   \<and> getOptimalRouteFrom metricsFor [] = Inl TypeError"
  by (simp add: findOptimalRoute_def rankByCost_def costRoutes_def
      getOptimalRouteFrom_def rankRoutes_def weighRoutes_def)

section \<open>Ranking of routes\<close>

lemma update_fresh: "k \<notin> fst ` set al \<Longrightarrow> AList.update k v al = al @ [(k, v)]"
  by (induction al) auto

lemma update_entries: "set (AList.update k v al) \<subseteq> insert (k, v) (set al)"
  by (induction al) auto

lemma fold_update_distinct:
  "distinct rs \<Longrightarrow> set rs \<inter> fst ` set acc = {} \<Longrightarrow>
   fold (\<lambda>r al. AList.update r (f r) al) rs acc = acc @ map (\<lambda>r. (r, f r)) rs"
proof (induction rs arbitrary: acc)
  case Nil
  then show ?case by simp
next
  case (Cons r rs)
  then have fresh: "r \<notin> fst ` set acc" by auto
  have "set rs \<inter> fst ` set (acc @ [(r, f r)]) = {}"
    using Cons.prems by auto
  with Cons show ?case by (simp add: update_fresh [OF fresh])
qed

lemma fold_update_entries:
  "(k, v) \<in> set (fold (\<lambda>r al. AList.update r (f r) al) rs acc) \<Longrightarrow>
   (k, v) \<in> set acc \<or> (k \<in> set rs \<and> v = f k)"
proof (induction rs arbitrary: acc)
  case Nil
  then show ?case by simp
next
  case (Cons r rs)
  from Cons.prems have "(k, v) \<in> set (fold (\<lambda>r al. AList.update r (f r) al) rs (AList.update r (f r) acc))"
    by simp
  from Cons.IH [OF this] show ?case
    using update_entries [of r "f r" acc] by auto
qed

lemma fold_update_keys:
  "fst ` set (fold (\<lambda>r al. AList.update r (f r) al) rs acc) = set rs \<union> fst ` set acc"
  by (induction rs arbitrary: acc) (auto simp: dom_update)

lemma weighRoutes_distinct:
  "distinct rs \<Longrightarrow>
   weighRoutes mf rs = map (\<lambda>r. (r, \<lparr>weight = calculateRouteWeight (mf r), metrics = mf r\<rparr>)) rs"
  using fold_update_distinct [of rs "[]" "\<lambda>r. \<lparr>weight = calculateRouteWeight (mf r), metrics = mf r\<rparr>"]
  by (simp add: weighRoutes_def)

lemma costRoutes_distinct:
  "distinct rs \<Longrightarrow>
   costRoutes gc md rs
     = map (\<lambda>r. (r, \<lparr>totalCost = calculateTotalCost (gc r) (md r), delay = md r, costInfo = gc r\<rparr>)) rs"
  using fold_update_distinct [of rs "[]" "\<lambda>r. \<lparr>totalCost = calculateTotalCost (gc r) (md r), delay = md r, costInfo = gc r\<rparr>"]
  by (simp add: costRoutes_def)

lemma rankRoutes_entries:
  assumes "e \<in> set (rankRoutes mf rs)"
  shows "fst e \<in> set rs \<and> snd e = \<lparr>weight = calculateRouteWeight (mf (fst e)), metrics = mf (fst e)\<rparr>"
  using assms fold_update_entries [of "fst e" "snd e" "\<lambda>r. \<lparr>weight = calculateRouteWeight (mf r), metrics = mf r\<rparr>" rs "[]"]
  by (simp add: rankRoutes_def weighRoutes_def)

lemma rankRoutes_nonempty: "rs \<noteq> [] \<Longrightarrow> rankRoutes mf rs \<noteq> []"
proof -
  assume "rs \<noteq> []"
  then have "fst ` set (weighRoutes mf rs) \<noteq> {}"
    unfolding weighRoutes_def fold_update_keys by simp
  then have "set (rankRoutes mf rs) \<noteq> {}"
    by (simp add: rankRoutes_def)
  then show ?thesis by auto
qed

lemma getOptimalRouteFrom_nonempty:
  assumes "rs \<noteq> []"
  shows "\<exists>r \<in> set rs.
           getOptimalRouteFrom mf rs
             = Inr \<lparr>selectedRoute = r, selectedMetrics = mf r,
                    selectedWeight = calculateRouteWeight (mf r)\<rparr>"
proof -
  from rankRoutes_nonempty [OF assms] obtain e es
    where ranked: "rankRoutes mf rs = e # es"
    by (cases "rankRoutes mf rs") auto
  then have "e \<in> set (rankRoutes mf rs)" by simp
  from rankRoutes_entries [OF this]
  have mem: "fst e \<in> set rs"
    and ent: "snd e = \<lparr>weight = calculateRouteWeight (mf (fst e)), metrics = mf (fst e)\<rparr>"
    by simp_all
  have "getOptimalRouteFrom mf rs
             = Inr \<lparr>selectedRoute = fst e, selectedMetrics = mf (fst e),
                    selectedWeight = calculateRouteWeight (mf (fst e))\<rparr>"
    by (simp add: getOptimalRouteFrom_def ranked ent)
  with mem show ?thesis by blast
qed

text \<open>
  C6, as the code has it. Route scoring has no validation and no InvalidMetricError:
  whatever the metrics are, in range or not, selection over a non-empty candidate list
  returns a candidate with its metrics as measured and the score computed from these raw
  values, nothing being rejected or clamped into range.
\<close>

theorem route_scoring_is_unvalidated:
  assumes "availableRoutes \<noteq> []"
  shows "\<exists>r \<in> set availableRoutes.
           getOptimalRouteFrom metricsFor availableRoutes
             = Inr \<lparr>selectedRoute = r,
                    selectedMetrics = metricsFor r,
                    selectedWeight =
                      0.4 * (1 - min (latency (metricsFor r)) 200 / 200)
                      + 0.3 * (1 - load (metricsFor r))
                      + 0.3 * reliability (metricsFor r)\<rparr>"
  using getOptimalRouteFrom_nonempty [OF assms, of metricsFor]
  by (simp add: calculateRouteWeight_def LATENCY_WEIGHT_def LOAD_WEIGHT_def RELIABILITY_WEIGHT_def)

theorem route_scoring_is_unvalidated_witness:
  "[''route1'', ''route2''] \<noteq> []
   \<and> getOptimalRouteFrom outOfRangeMetrics [''route1'', ''route2'']
     = Inr \<lparr>selectedRoute = ''route1'',
            selectedMetrics = outOfRangeMetrics ''route1'',
            selectedWeight = 0.4 * (1 - min (latency (outOfRangeMetrics ''route1'')) 200 / 200)
                      + 0.3 * (1 - load (outOfRangeMetrics ''route1''))
                      + 0.3 * reliability (outOfRangeMetrics ''route1'')\<rparr>"
  using route_scoring_is_unvalidated [of "[''route1'', ''route2'']" outOfRangeMetrics]
  by (simp add: getOptimalRouteFrom_def rankRoutes_def weighRoutes_def outOfRangeMetrics_def
      calculateRouteWeight_def LATENCY_WEIGHT_def LOAD_WEIGHT_def RELIABILITY_WEIGHT_def)

text \<open>
  C6, as the spec states it, fails: a route with latency -100, load 2 and reliability 3 is
  scored 1.2 and selected.
\<close>

theorem out_of_range_metrics_are_scored:
  "getOptimalRouteFrom outOfRangeMetrics [''route1'']
     = Inr \<lparr>selectedRoute = ''route1'',
            selectedMetrics = \<lparr>latency = - 100, load = 2, reliability = 3\<rparr>,
            selectedWeight = 1.2\<rparr>"
  by (simp add: getOptimalRouteFrom_def rankRoutes_def weighRoutes_def outOfRangeMetrics_def
      calculateRouteWeight_def LATENCY_WEIGHT_def LOAD_WEIGHT_def RELIABILITY_WEIGHT_def)

text \<open>
  C8, as the code has it. For a candidate list without repetitions the ranking is by
  descending score (by ascending total cost in least-cost routing), and the candidates of
  equal score (equal cost) appear in it in the order in which they were supplied: the sort
  is stable and no comparison of route identifiers takes place.
\<close>

theorem ranking_is_stable:
  assumes "distinct availableRoutes"
  shows "sorted (map (\<lambda>e. - weight (snd e)) (rankRoutes mf availableRoutes))
       \<and> map fst (filter (\<lambda>e. weight (snd e) = w) (rankRoutes mf availableRoutes))
           = filter (\<lambda>r. calculateRouteWeight (mf r) = w) availableRoutes
       \<and> sorted (map (\<lambda>e. totalCost (snd e)) (rankByCost gc md availableRoutes))
       \<and> map fst (filter (\<lambda>e. totalCost (snd e) = c) (rankByCost gc md availableRoutes))
           = filter (\<lambda>r. calculateTotalCost (gc r) (md r) = c) availableRoutes"
proof (intro conjI)
  show "sorted (map (\<lambda>e. - weight (snd e)) (rankRoutes mf availableRoutes))"
    by (simp add: rankRoutes_def)
next
  have "filter (\<lambda>e. weight (snd e) = w) (rankRoutes mf availableRoutes)
        = filter (\<lambda>e. - weight (snd e) = - w) (rankRoutes mf availableRoutes)"
    by simp
  also have "\<dots> = filter (\<lambda>e. - weight (snd e) = - w) (weighRoutes mf availableRoutes)"
    unfolding rankRoutes_def by (rule sort_key_stable)
  finally show "map fst (filter (\<lambda>e. weight (snd e) = w) (rankRoutes mf availableRoutes))
           = filter (\<lambda>r. calculateRouteWeight (mf r) = w) availableRoutes"
    by (simp add: weighRoutes_distinct [OF assms] filter_map comp_def)
next
  show "sorted (map (\<lambda>e. totalCost (snd e)) (rankByCost gc md availableRoutes))"
    by (simp add: rankByCost_def)
next
  have "filter (\<lambda>e. totalCost (snd e) = c) (rankByCost gc md availableRoutes)
        = filter (\<lambda>e. totalCost (snd e) = c) (costRoutes gc md availableRoutes)"
    unfolding rankByCost_def by (rule sort_key_stable)
  then show "map fst (filter (\<lambda>e. totalCost (snd e) = c) (rankByCost gc md availableRoutes))
           = filter (\<lambda>r. calculateTotalCost (gc r) (md r) = c) availableRoutes"
    by (simp add: costRoutes_distinct [OF assms] filter_map comp_def)
qed

theorem ranking_is_stable_witness:
  "distinct [''route2'', ''route1'', ''route3'']
   \<and> map fst (filter (\<lambda>e. weight (snd e) = 0.834)
                (rankRoutes tieMetrics [''route2'', ''route1'', ''route3'']))
       = [''route2'', ''route1'']
   \<and> map fst (filter (\<lambda>e. totalCost (snd e) = 10.8)
                (rankByCost equalCosts (\<lambda>r. 40) [''route2'', ''route1'', ''route3'']))
       = [''route2'', ''route1'', ''route3'']"
  using ranking_is_stable [of "[''route2'', ''route1'', ''route3'']" tieMetrics "0.834" equalCosts "\<lambda>r. 40" "10.8"]
  by (simp add: tieMetrics_def equalCosts_def calculateRouteWeight_def
      LATENCY_WEIGHT_def LOAD_WEIGHT_def RELIABILITY_WEIGHT_def
      calculateTotalCost_def weightOr1_def DELAY_PENALTY_FACTOR_def upt_rec)

text \<open>
  C8, as the spec states it, fails: of two routes with equal score, supplied as route2 and
  then route1, route2 is ranked first and selected, and the ranking follows the supply
  order, not the order of the identifiers.
\<close>

theorem ties_keep_supply_order:
  "map fst (rankRoutes equalMetrics [''route2'', ''route1'']) = [''route2'', ''route1'']
   \<and> map fst (rankRoutes equalMetrics [''route1'', ''route2'']) = [''route1'', ''route2'']
   \<and> getOptimalRouteFrom equalMetrics [''route2'', ''route1'']
       = Inr \<lparr>selectedRoute = ''route2'',
              selectedMetrics = \<lparr>latency = 50, load = 0.2, reliability = 0.98\<rparr>,
              selectedWeight = 0.834\<rparr>
   \<and> map fst (rankByCost equalCosts (\<lambda>r. 40) [''route2'', ''route1'']) = [''route2'', ''route1'']"
  by (simp add: getOptimalRouteFrom_def rankRoutes_def weighRoutes_def equalMetrics_def
      rankByCost_def costRoutes_def equalCosts_def
      calculateRouteWeight_def LATENCY_WEIGHT_def LOAD_WEIGHT_def RELIABILITY_WEIGHT_def)

section \<open>The total cost of a route\<close>

lemma fold_index_sum:
  "fold (\<lambda>i acc. acc + f i) [0..<n] (a::real) = a + (\<Sum>i<n. f i)"
  by (induction n) simp_all

text \<open>
  What the loop computes: the sum over the components of cost times weight, where the
  weight is the one given unless it is omitted or 0.
\<close>

lemma calculateTotalCost_sum:
  "calculateTotalCost \<lparr>costs = Some cs, weights = Some ws\<rparr> d
     = (\<Sum>i<length cs. weightOr1 ws i * cs ! i) + 0.2 * d"
  by (simp add: calculateTotalCost_def fold_index_sum DELAY_PENALTY_FACTOR_def)

text \<open>
  C5. The total cost is the weighted sum of the component costs plus 0.2 times the delay,
  a weight that is omitted counting as 1. The code also replaces a weight that is given as
  0 by 1: one component of cost 5 and weight 0, with delay 0, costs 5 and not 0. The
  second scenario of the spec (costs 4, 2, 1, weights 0.5, 0.3, 0.2, delay 40) gives 10.8.
\<close>

theorem zero_weight_counts_as_one:
  "calculateTotalCost \<lparr>costs = Some [5], weights = Some [Some 0]\<rparr> 0 = 5
   \<and> calculateTotalCost
        \<lparr>costs = Some [4, 2, 1], weights = Some [Some 0.5, Some 0.3, Some 0.2]\<rparr> 40 = 10.8"
  by (simp add: calculateTotalCost_def weightOr1_def DELAY_PENALTY_FACTOR_def upt_rec)

section \<open>The risk score\<close>

lemma riskWeight_table:
  "ty \<notin> set objectPrototypeNames \<Longrightarrow>
   riskWeight ty =
     NumberProp (if ty = ''callVolume'' then 0.3 else if ty = ''duration'' then 0.2
                 else if ty = ''failureRate'' then 0.5 else 0.2)"
  by (simp add: riskWeight_def riskWeights_def getProperty_def orDefault_def)

lemma riskWeight_inherited: "ty \<in> set objectPrototypeNames \<Longrightarrow> riskWeight ty = InheritedProp"
  by (auto simp: riskWeight_def riskWeights_def getProperty_def orDefault_def
      objectPrototypeNames_def)

lemma totalScore_finite:
  assumes "\<forall>a \<in> set anomalies.
             deviation (report a) = Num (dev a) \<and> atype a \<notin> set objectPrototypeNames"
  shows "fold (\<lambda>a total. js_plus total (js_times_prop (deviation (report a)) (riskWeight (atype a))))
           anomalies (Num t)
         = Num (t + (\<Sum>a\<leftarrow>anomalies. dev a *
                          (if atype a = ''callVolume'' then 0.3
                           else if atype a = ''duration'' then 0.2
                           else if atype a = ''failureRate'' then 0.5
                           else 0.2)))"
  using assms
proof (induction anomalies arbitrary: t)
  case Nil
  then show ?case by simp
next
  case (Cons a as)
  then have d: "deviation (report a) = Num (dev a)"
    and n: "atype a \<notin> set objectPrototypeNames"
    and rest: "\<forall>a \<in> set as.
             deviation (report a) = Num (dev a) \<and> atype a \<notin> set objectPrototypeNames"
    by simp_all
  show ?case
    by (simp only: fold_simps list.map sum_list.Cons d riskWeight_table [OF n]
        js_times_prop.simps js_times.simps js_plus.simps Cons.IH [OF rest] add.assoc)
qed

text \<open>
  What \<^verbatim>\<open>calculateRiskScore\<close> returns when every type is an ordinary name, that is, not the
  name of a property inherited from \<^verbatim>\<open>Object.prototype\<close>, and every deviation is a number
  \<open>dev a\<close>: the score is min(1, sum of dev a * weight(type a)) with the weights 0.3 for
  callVolume, 0.2 for duration, 0.5 for failureRate and 0.2 for any other type, and the
  level is low iff score < 0.3, medium iff 0.3 <= score < 0.7 and high iff score >= 0.7.
  The empty list gives score 0 and level low, and one failureRate anomaly of deviation 0.6
  gives score 0.3 and level medium.
\<close>

lemma calculateRiskScore_ordinary_types:
  "calculateRiskScore now []
     = \<lparr>score = Num 0, level = ''low'', anomalyCount = None, riskTimestamp = None\<rparr>
   \<and> (anomalies \<noteq> []
        \<and> (\<forall>a \<in> set anomalies.
              deviation (report a) = Num (dev a) \<and> atype a \<notin> set objectPrototypeNames) \<longrightarrow>
        (let s = min 1 (\<Sum>a\<leftarrow>anomalies. dev a *
                          (if atype a = ''callVolume'' then 0.3
                           else if atype a = ''duration'' then 0.2
                           else if atype a = ''failureRate'' then 0.5
                           else 0.2))
         in score (calculateRiskScore now anomalies) = Num s
            \<and> (level (calculateRiskScore now anomalies) = ''low'' \<longleftrightarrow> s < 0.3)
            \<and> (level (calculateRiskScore now anomalies) = ''medium'' \<longleftrightarrow> 0.3 \<le> s \<and> s < 0.7)
            \<and> (level (calculateRiskScore now anomalies) = ''high'' \<longleftrightarrow> 0.7 \<le> s)))
   \<and> (atype x = ''failureRate'' \<and> deviation (report x) = Num 0.6 \<longrightarrow>
        score (calculateRiskScore now [x]) = Num 0.3
        \<and> level (calculateRiskScore now [x]) = ''medium'')"
proof (intro conjI impI)
  show "calculateRiskScore now []
     = \<lparr>score = Num 0, level = ''low'', anomalyCount = None, riskTimestamp = None\<rparr>"
    by (simp add: calculateRiskScore_def)
next
  assume h: "anomalies \<noteq> []
        \<and> (\<forall>a \<in> set anomalies.
              deviation (report a) = Num (dev a) \<and> atype a \<notin> set objectPrototypeNames)"
  then have fin: "\<forall>a \<in> set anomalies.
              deviation (report a) = Num (dev a) \<and> atype a \<notin> set objectPrototypeNames"
    by simp
  define T where "T = (\<Sum>a\<leftarrow>anomalies. dev a *
                          (if atype a = ''callVolume'' then 0.3
                           else if atype a = ''duration'' then 0.2
                           else if atype a = ''failureRate'' then 0.5
                           else 0.2))"
  have total: "fold (\<lambda>a total. js_plus total (js_times_prop (deviation (report a)) (riskWeight (atype a))))
           anomalies (Num 0) = Num T"
    unfolding T_def using totalScore_finite [OF fin, of 0] by simp
  have sc: "score (calculateRiskScore now anomalies) = Num (min 1 T)"
    using h by (simp add: calculateRiskScore_def total Let_def)
  have lv: "level (calculateRiskScore now anomalies)
            = (if min 1 T < 0.3 then ''low'' else if min 1 T < 0.7 then ''medium'' else ''high'')"
    using h by (auto simp add: calculateRiskScore_def total Let_def min_def)
  have "score (calculateRiskScore now anomalies) = Num (min 1 T)
            \<and> (level (calculateRiskScore now anomalies) = ''low'' \<longleftrightarrow> min 1 T < 0.3)
            \<and> (level (calculateRiskScore now anomalies) = ''medium''
                 \<longleftrightarrow> 0.3 \<le> min 1 T \<and> min 1 T < 0.7)
            \<and> (level (calculateRiskScore now anomalies) = ''high'' \<longleftrightarrow> 0.7 \<le> min 1 T)"
    unfolding sc lv by auto
  then show "let s = min 1 (\<Sum>a\<leftarrow>anomalies. dev a *
                          (if atype a = ''callVolume'' then 0.3
                           else if atype a = ''duration'' then 0.2
                           else if atype a = ''failureRate'' then 0.5
                           else 0.2))
         in score (calculateRiskScore now anomalies) = Num s
            \<and> (level (calculateRiskScore now anomalies) = ''low'' \<longleftrightarrow> s < 0.3)
            \<and> (level (calculateRiskScore now anomalies) = ''medium'' \<longleftrightarrow> 0.3 \<le> s \<and> s < 0.7)
            \<and> (level (calculateRiskScore now anomalies) = ''high'' \<longleftrightarrow> 0.7 \<le> s)"
    unfolding T_def Let_def .
next
  assume "atype x = ''failureRate'' \<and> deviation (report x) = Num 0.6"
  then show "score (calculateRiskScore now [x]) = Num 0.3"
    by (simp add: calculateRiskScore_def riskWeight_table objectPrototypeNames_def)
next
  assume "atype x = ''failureRate'' \<and> deviation (report x) = Num 0.6"
  then show "level (calculateRiskScore now [x]) = ''medium''"
    by (simp add: calculateRiskScore_def riskWeight_table objectPrototypeNames_def)
qed

text \<open>
  C3. The claim gives every type other than callVolume, duration and failureRate the
  weight 0.2, so that one anomaly of type \<open>constructor\<close> and deviation 0.5 would score
  0.5 * 0.2 = 0.1 with level low. In the code \<^verbatim>\<open>weights['constructor']\<close> is the function
  that the object literal inherits, which is truthy, so the default is not taken; the
  product is NaN, the score is NaN and, both comparisons being false, the level is high.
\<close>

theorem inherited_type_scores_NaN:
  "calculateRiskScore 7 [exampleAnomaly ''constructor'' 0.5]
     = \<lparr>score = NaN, level = ''high'', anomalyCount = Some 1, riskTimestamp = Some 7\<rparr>"
  by (simp add: calculateRiskScore_def exampleAnomaly_def riskWeight_inherited
      objectPrototypeNames_def)

section \<open>Anomaly detection\<close>

lemma threshold_table:
  assumes "anomalyThresholds self = anomalyThresholds new_AnomalyDetectionSystem"
    and "n \<notin> set objectPrototypeNames"
  shows "thresholdFor self n =
     NumberProp (if n = ''callVolume'' then 0.3 else if n = ''duration'' then 0.25
                 else if n = ''failureRate'' then 0.2 else if n = ''latency'' then 0.15
                 else 0.2)"
  using assms(2)
  by (simp add: thresholdFor_def assms(1) new_AnomalyDetectionSystem_def getProperty_def
      orDefault_def)

lemma threshold_inherited:
  assumes "anomalyThresholds self = anomalyThresholds new_AnomalyDetectionSystem"
    and "n \<in> set objectPrototypeNames"
  shows "thresholdFor self n = InheritedProp"
  using assms(2)
  by (auto simp: thresholdFor_def assms(1) new_AnomalyDetectionSystem_def getProperty_def
      orDefault_def objectPrototypeNames_def)

text \<open>
  For a metric whose name is inherited from \<^verbatim>\<open>Object.prototype\<close> the threshold that is read
  is not a number and no value is flagged.
\<close>

lemma detectAnomaly_inherited_name:
  assumes "baselineMetrics self metricName = Some b"
    and "anomalyThresholds self = anomalyThresholds new_AnomalyDetectionSystem"
    and "metricName \<in> set objectPrototypeNames"
  shows "\<exists>r. detectAnomaly now self metricName v = Deviation r
              \<and> \<not> isAnomaly r \<and> threshold r = InheritedProp"
  using assms(1) by (simp add: detectAnomaly_def threshold_inherited [OF assms(2,3)] Let_def)

text \<open>
  C9, as the code has it. With a stored baseline, the thresholds of the constructor and a
  metric name that is not inherited from \<^verbatim>\<open>Object.prototype\<close>, \<^verbatim>\<open>detectAnomaly\<close> always
  returns a deviation report and never an error. For a finite mean other than 0 the
  deviation is |observed - mean| / mean and the value is anomalous iff the deviation
  exceeds the threshold of the metric (0.2 for a metric that is not listed). For a mean of
  0 and an observed value other than 0 the deviation is Infinity and the value is
  anomalous when the zero is positive, and -Infinity and not anomalous when the zero is
  negative; for a mean of 0 and an observed value of 0, and for a mean that is NaN or
  infinite, the deviation is NaN and the value is not anomalous.
\<close>

theorem detectAnomaly_report:
  assumes "baselineMetrics self metricName = Some b"
    and "anomalyThresholds self = anomalyThresholds new_AnomalyDetectionSystem"
    and "metricName \<notin> set objectPrototypeNames"
  shows "detectAnomaly now self metricName v =
           (let thr = (if metricName = ''callVolume'' then 0.3
                       else if metricName = ''duration'' then 0.25
                       else if metricName = ''failureRate'' then 0.2
                       else if metricName = ''latency'' then 0.15
                       else 0.2)
            in Deviation
                 \<lparr>isAnomaly =
                    (case mean b of
                       Num m \<Rightarrow> if m \<noteq> 0 then thr < \<bar>v - m\<bar> / m else v \<noteq> 0
                     | NegZero \<Rightarrow> False
                     | PosInfinity \<Rightarrow> False
                     | NegInfinity \<Rightarrow> False
                     | NaN \<Rightarrow> False),
                  deviation =
                    (case mean b of
                       Num m \<Rightarrow> if m \<noteq> 0 then Num (\<bar>v - m\<bar> / m)
                                else if v \<noteq> 0 then PosInfinity else NaN
                     | NegZero \<Rightarrow> if v \<noteq> 0 then NegInfinity else NaN
                     | PosInfinity \<Rightarrow> NaN
                     | NegInfinity \<Rightarrow> NaN
                     | NaN \<Rightarrow> NaN),
                  threshold = NumberProp thr,
                  baselineMean = mean b,
                  currentValue = v,
                  timestamp = now\<rparr>)"
  using assms(1)
  by (cases "mean b") (simp_all add: detectAnomaly_def threshold_table [OF assms(2,3)] Let_def)

text \<open>
  The third scenario of the spec (mean 100, threshold 0.2, observed 135), an observed
  value of 0 on a baseline of mean 0, and an observed value of 5 on a baseline of mean -0.
\<close>

theorem detectAnomaly_report_witness:
  "baselineMetrics exampleDetector ''failureRate''
     = Some \<lparr>mean = Num 100, stdDev = 5, lastUpdated = 0\<rparr>
   \<and> anomalyThresholds exampleDetector = anomalyThresholds new_AnomalyDetectionSystem
   \<and> ''failureRate'' \<notin> set objectPrototypeNames
   \<and> detectAnomaly 7 exampleDetector ''failureRate'' 135
       = Deviation \<lparr>isAnomaly = True, deviation = Num 0.35, threshold = NumberProp 0.2,
                    baselineMean = Num 100, currentValue = 135, timestamp = 7\<rparr>
   \<and> baselineMetrics zeroMeanDetector ''callVolume''
       = Some \<lparr>mean = Num 0, stdDev = 0, lastUpdated = 0\<rparr>
   \<and> anomalyThresholds zeroMeanDetector = anomalyThresholds new_AnomalyDetectionSystem
   \<and> ''callVolume'' \<notin> set objectPrototypeNames
   \<and> detectAnomaly 7 zeroMeanDetector ''callVolume'' 0
       = Deviation \<lparr>isAnomaly = False, deviation = NaN, threshold = NumberProp 0.3,
                    baselineMean = Num 0, currentValue = 0, timestamp = 7\<rparr>
   \<and> baselineMetrics zeroMeanDetector ''latency''
       = Some \<lparr>mean = NegZero, stdDev = 0, lastUpdated = 0\<rparr>
   \<and> ''latency'' \<notin> set objectPrototypeNames
   \<and> detectAnomaly 7 zeroMeanDetector ''latency'' 5
       = Deviation \<lparr>isAnomaly = False, deviation = NegInfinity, threshold = NumberProp 0.15,
                    baselineMean = NegZero, currentValue = 5, timestamp = 7\<rparr>"
proof -
  have b: "baselineMetrics exampleDetector ''failureRate''
             = Some \<lparr>mean = Num 100, stdDev = 5, lastUpdated = 0\<rparr>"
    by (simp add: exampleDetector_def)
  have t: "anomalyThresholds exampleDetector = anomalyThresholds new_AnomalyDetectionSystem"
    by (simp add: exampleDetector_def)
  have n: "''failureRate'' \<notin> set objectPrototypeNames"
    by (simp add: objectPrototypeNames_def)
  have b0: "baselineMetrics zeroMeanDetector ''callVolume''
             = Some \<lparr>mean = Num 0, stdDev = 0, lastUpdated = 0\<rparr>"
    by (simp add: zeroMeanDetector_def)
  have t0: "anomalyThresholds zeroMeanDetector = anomalyThresholds new_AnomalyDetectionSystem"
    by (simp add: zeroMeanDetector_def)
  have n0: "''callVolume'' \<notin> set objectPrototypeNames"
    by (simp add: objectPrototypeNames_def)
  have b1: "baselineMetrics zeroMeanDetector ''latency''
             = Some \<lparr>mean = NegZero, stdDev = 0, lastUpdated = 0\<rparr>"
    by (simp add: zeroMeanDetector_def)
  have n1: "''latency'' \<notin> set objectPrototypeNames"
    by (simp add: objectPrototypeNames_def)
  show ?thesis
    using b t n b0 t0 n0 b1 n1
      detectAnomaly_report [OF b t n, of 7 135]
      detectAnomaly_report [OF b0 t0 n0, of 7 0]
      detectAnomaly_report [OF b1 t0 n1, of 7 5]
    by simp
qed

text \<open>
  C9, as the spec states it, fails: with a baseline of mean 0 the call returns a report,
  here with deviation Infinity, and no DegenerateBaselineError.
\<close>

theorem detectAnomaly_zero_mean_returns_report:
  "detectAnomaly 7 zeroMeanDetector ''callVolume'' 5
   = Deviation \<lparr>isAnomaly = True, deviation = PosInfinity, threshold = NumberProp 0.3,
                baselineMean = Num 0, currentValue = 5, timestamp = 7\<rparr>"
  by (simp add: detectAnomaly_def thresholdFor_def zeroMeanDetector_def
      new_AnomalyDetectionSystem_def getProperty_def orDefault_def)

lemma checkMetric_None: "checkMetric now self n None = []"
  by (simp add: checkMetric_def)

lemma checkMetric_zero: "checkMetric now self n (Some 0) = []"
  by (simp add: checkMetric_def)

lemma checkMetric_atype: "a \<in> set (checkMetric now self n field) \<Longrightarrow> atype a = n"
  by (auto simp: checkMetric_def split: option.splits if_splits detection.splits)

lemma processCallMetrics_atypes:
  assumes "a \<in> set (processCallMetrics now self ms)"
  shows "(atype a = ''callVolume'' \<and> a \<in> set (checkMetric now self ''callVolume'' (callVolume ms)))
       \<or> (atype a = ''duration'' \<and> a \<in> set (checkMetric now self ''duration'' (avgDuration ms)))
       \<or> (atype a = ''failureRate'' \<and> a \<in> set (checkMetric now self ''failureRate'' (failureRate ms)))"
  using assms checkMetric_atype by (fastforce simp: processCallMetrics_def)

text \<open>
  C10. A field of the metrics object that is present with the value 0 is skipped as if it
  were absent: the result is the one for the object without the field, and it has no
  entry of that field's type, whatever the baselines and thresholds are.
\<close>

theorem zero_metric_is_skipped:
  "(callVolume ms = Some 0 \<longrightarrow>
      processCallMetrics now self ms = processCallMetrics now self (ms\<lparr>callVolume := None\<rparr>)
      \<and> (\<forall>a \<in> set (processCallMetrics now self ms). atype a \<noteq> ''callVolume''))
   \<and> (avgDuration ms = Some 0 \<longrightarrow>
      processCallMetrics now self ms = processCallMetrics now self (ms\<lparr>avgDuration := None\<rparr>)
      \<and> (\<forall>a \<in> set (processCallMetrics now self ms). atype a \<noteq> ''duration''))
   \<and> (failureRate ms = Some 0 \<longrightarrow>
      processCallMetrics now self ms = processCallMetrics now self (ms\<lparr>failureRate := None\<rparr>)
      \<and> (\<forall>a \<in> set (processCallMetrics now self ms). atype a \<noteq> ''failureRate''))"
proof (intro conjI impI ballI)
  assume "callVolume ms = Some 0"
  then show "processCallMetrics now self ms = processCallMetrics now self (ms\<lparr>callVolume := None\<rparr>)"
    by (simp add: processCallMetrics_def checkMetric_zero checkMetric_None)
next
  fix a assume "callVolume ms = Some 0" and "a \<in> set (processCallMetrics now self ms)"
  then show "atype a \<noteq> ''callVolume''"
    using processCallMetrics_atypes [of a now self ms] by (auto simp: checkMetric_zero)
next
  assume "avgDuration ms = Some 0"
  then show "processCallMetrics now self ms = processCallMetrics now self (ms\<lparr>avgDuration := None\<rparr>)"
    by (simp add: processCallMetrics_def checkMetric_zero checkMetric_None)
next
  fix a assume "avgDuration ms = Some 0" and "a \<in> set (processCallMetrics now self ms)"
  then show "atype a \<noteq> ''duration''"
    using processCallMetrics_atypes [of a now self ms] by (auto simp: checkMetric_zero)
next
  assume "failureRate ms = Some 0"
  then show "processCallMetrics now self ms = processCallMetrics now self (ms\<lparr>failureRate := None\<rparr>)"
    by (simp add: processCallMetrics_def checkMetric_zero checkMetric_None)
next
  fix a assume "failureRate ms = Some 0" and "a \<in> set (processCallMetrics now self ms)"
  then show "atype a \<noteq> ''failureRate''"
    using processCallMetrics_atypes [of a now self ms] by (auto simp: checkMetric_zero)
qed

text \<open>
  With a baseline of mean 100, a metric of value 0 would deviate by 1 and be flagged if it
  were examined; it is skipped, and only the metric of value 135 is reported.
\<close>

theorem zero_metric_is_skipped_witness:
  "callVolume \<lparr>callVolume = Some 0, avgDuration = Some 135, failureRate = None\<rparr> = Some 0
   \<and> processCallMetrics 7 exampleDetector
        \<lparr>callVolume = Some 0, avgDuration = Some 135, failureRate = None\<rparr>
      = processCallMetrics 7 exampleDetector
          \<lparr>callVolume = None, avgDuration = Some 135, failureRate = None\<rparr>
   \<and> map atype (processCallMetrics 7 exampleDetector
        \<lparr>callVolume = Some 0, avgDuration = Some 135, failureRate = None\<rparr>) = [''duration'']
   \<and> avgDuration \<lparr>callVolume = Some 135, avgDuration = Some 0, failureRate = Some 0\<rparr> = Some 0
   \<and> failureRate \<lparr>callVolume = Some 135, avgDuration = Some 0, failureRate = Some 0\<rparr> = Some 0
   \<and> processCallMetrics 7 exampleDetector
        \<lparr>callVolume = Some 135, avgDuration = Some 0, failureRate = Some 0\<rparr>
      = processCallMetrics 7 exampleDetector
          \<lparr>callVolume = Some 135, avgDuration = None, failureRate = None\<rparr>
   \<and> map atype (processCallMetrics 7 exampleDetector
        \<lparr>callVolume = Some 135, avgDuration = Some 0, failureRate = Some 0\<rparr>) = [''callVolume'']"
  using zero_metric_is_skipped
          [of "\<lparr>callVolume = Some 0, avgDuration = Some 135, failureRate = None\<rparr>" 7 exampleDetector]
        zero_metric_is_skipped
          [of "\<lparr>callVolume = Some 135, avgDuration = Some 0, failureRate = Some 0\<rparr>" 7 exampleDetector]
  by (simp add: processCallMetrics_def checkMetric_def detectAnomaly_def thresholdFor_def
      exampleDetector_def new_AnomalyDetectionSystem_def getProperty_def orDefault_def)

section \<open>The call pipeline\<close>

lemma getOptimalRoute_succeeds:
  "\<exists>opt. getOptimalRoute mf ns cr = Inr opt \<and> selectedMetrics opt = mf (selectedRoute opt)"
  using getOptimalRouteFrom_nonempty [of "getAvailableRoutes ns" mf]
  by (auto simp: getOptimalRoute_def getAvailableRoutes_def)

lemma findOptimalRoute_singleton:
  "findOptimalRoute gc md [x]
     = Inr \<lparr>cheapestRoute = x,
            cheapestMetrics = \<lparr>totalCost = calculateTotalCost (gc x) (md x), delay = md x,
                               costInfo = gc x\<rparr>\<rparr>"
  by (simp add: findOptimalRoute_def rankByCost_def costRoutes_def)

lemma processCallTry_unverified:
  "\<not> verified (envVerification env) \<Longrightarrow>
   processCallTry env req fw
     = (Inl (Error (''Call verification failed: '' @ showCode (errorCode (envVerification env)))), fw)"
  by (simp add: processCallTry_def)

lemma processCallTry_verified:
  assumes "verified (envVerification env)"
    and "getOptimalRoute (envMetricsFor env) () req = Inr opt"
  shows "processCallTry env req fw =
           (if callAnomalies (envNow env) fw \<noteq> []
               \<and> level (calculateRiskScore (envNow env) (callAnomalies (envNow env) fw)) = ''high''
            then (Inl (Error ''High-risk call detected''), fw)
            else if callAnomalies (envNow env) fw \<noteq> []
            then (Inl ReferenceError, storeSession env req opt fw)
            else (case envLogCall env of
                    Some e \<Rightarrow> (Inl e, storeSession env req opt fw)
                  | None \<Rightarrow>
                      (Inr \<lparr>success = True, resultCallId = requestId req,
                            resultRoute = selectedRoute opt,
                            encryptedChannel = envEncryptedChannel env,
                            verificationStatus = attestationLevel (envVerification env)\<rparr>,
                       storeSession env req opt fw)))"
  using assms
  by (auto simp add: processCallTry_def findOptimalRoute_singleton storeSession_def Let_def
      split: option.splits)

lemma processCall_unverified:
  "\<not> verified (envVerification env) \<Longrightarrow>
   processCall env req fw
     = (Inl (Error (''Call verification failed: '' @ showCode (errorCode (envVerification env)))),
        fw\<lparr>systemMetrics := (systemMetrics fw)\<lparr>failedCalls := failedCalls (systemMetrics fw) + 1\<rparr>\<rparr>)"
  by (simp add: processCall_def processCallTry_unverified)

lemma processCall_high_risk:
  assumes "verified (envVerification env)"
    and "callAnomalies (envNow env) fw \<noteq> []"
    and "level (calculateRiskScore (envNow env) (callAnomalies (envNow env) fw)) = ''high''"
  shows "processCall env req fw
     = (Inl (Error ''High-risk call detected''),
        fw\<lparr>systemMetrics := (systemMetrics fw)\<lparr>failedCalls := failedCalls (systemMetrics fw) + 1\<rparr>\<rparr>)"
proof -
  from getOptimalRoute_succeeds [of "envMetricsFor env" "()" req] obtain opt
    where "getOptimalRoute (envMetricsFor env) () req = Inr opt" by blast
  from processCallTry_verified [OF assms(1) this] assms(2,3) show ?thesis
    by (simp add: processCall_def)
qed

lemma processCall_logged:
  assumes "verified (envVerification env)"
    and "callAnomalies (envNow env) fw = []"
    and "getOptimalRoute (envMetricsFor env) () req = Inr opt"
  shows "processCall env req fw =
           (case envLogCall env of
              Some e \<Rightarrow>
                (Inl e,
                 (storeSession env req opt fw)
                   \<lparr>systemMetrics :=
                      (systemMetrics fw)\<lparr>failedCalls := failedCalls (systemMetrics fw) + 1\<rparr>\<rparr>)
            | None \<Rightarrow>
                (Inr \<lparr>success = True, resultCallId = requestId req,
                      resultRoute = selectedRoute opt,
                      encryptedChannel = envEncryptedChannel env,
                      verificationStatus = attestationLevel (envVerification env)\<rparr>,
                 storeSession env req opt fw))"
  using processCallTry_verified [OF assms(1,3), of fw] assms(2)
  by (simp add: processCall_def storeSession_def split: option.splits)

lemma processCall_activeCalls:
  "activeCalls (snd (processCall env req fw)) = activeCalls fw
   \<or> (\<exists>opt. activeCalls (snd (processCall env req fw)) = activeCalls (storeSession env req opt fw))"
proof (cases "verified (envVerification env)")
  case False
  then show ?thesis by (simp add: processCall_unverified)
next
  case True
  from getOptimalRoute_succeeds [of "envMetricsFor env" "()" req] obtain opt
    where "getOptimalRoute (envMetricsFor env) () req = Inr opt" by blast
  from processCallTry_verified [OF True this, of fw] show ?thesis
    by (auto simp: processCall_def storeSession_def split: option.splits if_splits)
qed

lemma storeSession_other:
  "k \<noteq> requestId req \<Longrightarrow>
   map_of (activeCalls (storeSession env req opt fw)) k = map_of (activeCalls fw) k"
  by (simp add: storeSession_def update_conv')

lemma processCall_other:
  "k \<noteq> requestId req \<Longrightarrow>
   map_of (activeCalls (snd (processCall env req fw))) k = map_of (activeCalls fw) k"
  using processCall_activeCalls [of env req fw] by (auto simp: storeSession_other)

lemma processCall_success_session:
  assumes "fst (processCall env req fw) = Inr res"
  shows "map_of (activeCalls (snd (processCall env req fw))) (requestId req)
           = Some \<lparr>monitoringId = requestId req, startTime = envNow env,
                   monitoredRoute = resultRoute res,
                   monitoredMetrics = envMetricsFor env (resultRoute res),
                   monitoredAnomalies = []\<rparr>"
proof -
  from getOptimalRoute_succeeds [of "envMetricsFor env" "()" req] obtain opt
    where opt: "getOptimalRoute (envMetricsFor env) () req = Inr opt"
      and ms: "selectedMetrics opt = envMetricsFor env (selectedRoute opt)" by blast
  have v: "verified (envVerification env)"
    using assms processCall_unverified [of env req fw]
    by (cases "verified (envVerification env)") simp_all
  from processCallTry_verified [OF v opt, of fw] assms ms show ?thesis
    by (auto simp: processCall_def storeSession_def update_conv' split: option.splits if_splits)
qed

lemma processCall_distinct:
  "distinct (map fst (activeCalls fw)) \<Longrightarrow>
   distinct (map fst (activeCalls (snd (processCall env req fw))))"
  using processCall_activeCalls [of env req fw]
  by (auto simp: storeSession_def distinct_update)

lemma endCall_activeCalls:
  "activeCalls (snd (endCall env callId fw))
     = (if callId \<in> fst ` set (activeCalls fw) then AList.delete callId (activeCalls fw)
        else activeCalls fw)"
  by (auto simp: endCall_def Let_def map_of_eq_None_iff split: option.splits)

lemma endCall_distinct:
  "distinct (map fst (activeCalls fw)) \<Longrightarrow>
   distinct (map fst (activeCalls (snd (endCall env callId fw))))"
  by (simp add: endCall_activeCalls distinct_delete)

lemma endCall_live:
  assumes "callId \<in> fst ` set (activeCalls fw)"
  shows "\<exists>c. map_of (activeCalls fw) callId = Some c
           \<and> endCall env callId fw =
               (case envLogCall env of
                  Some e \<Rightarrow> (Inl e, fw\<lparr>activeCalls := AList.delete callId (activeCalls fw)\<rparr>)
                | None \<Rightarrow>
                    (Inr \<lparr>summaryCallId = callId, duration = (envNow env - startTime c) / 1000,
                          summaryRoute = monitoredRoute c, summaryMetrics = monitoredMetrics c\<rparr>,
                     fw\<lparr>activeCalls := AList.delete callId (activeCalls fw)\<rparr>))"
proof -
  from assms obtain c where "map_of (activeCalls fw) callId = Some c"
    by (cases "map_of (activeCalls fw) callId") (auto simp: map_of_eq_None_iff)
  then show ?thesis by (simp add: endCall_def Let_def)
qed

lemma reachable_distinct: "reachable fw \<Longrightarrow> distinct (map fst (activeCalls fw))"
proof (induction rule: reachable.induct)
  case reachable_new
  then show ?case by (simp add: new_CallRoutingFramework_def)
next
  case (reachable_processCall fw env callRequest)
  then show ?case by (simp add: processCall_distinct)
next
  case (reachable_endCall fw env callId)
  then show ?case by (simp add: endCall_distinct)
next
  case (reachable_baseline fw metricName b)
  then show ?case by simp
qed

lemma getOptimalRoute_equalMetrics:
  "getOptimalRoute equalMetrics ns cr
     = Inr \<lparr>selectedRoute = ''route1'',
            selectedMetrics = \<lparr>latency = 50, load = 0.2, reliability = 0.98\<rparr>,
            selectedWeight = 0.834\<rparr>"
  by (simp add: getOptimalRoute_def getAvailableRoutes_def getOptimalRouteFrom_def rankRoutes_def
      weighRoutes_def equalMetrics_def calculateRouteWeight_def
      LATENCY_WEIGHT_def LOAD_WEIGHT_def RELIABILITY_WEIGHT_def)

lemma getOptimalRoute_tieMetrics:
  "getOptimalRoute tieMetrics ns cr
     = Inr \<lparr>selectedRoute = ''route3'',
            selectedMetrics = \<lparr>latency = 0, load = 0, reliability = 1\<rparr>,
            selectedWeight = 1\<rparr>"
  by (simp add: getOptimalRoute_def getAvailableRoutes_def getOptimalRouteFrom_def rankRoutes_def
      weighRoutes_def tieMetrics_def calculateRouteWeight_def
      LATENCY_WEIGHT_def LOAD_WEIGHT_def RELIABILITY_WEIGHT_def)

lemma callAnomalies_no_baseline:
  "baselineMetrics (anomalyDetection fw) = Map.empty \<Longrightarrow> callAnomalies now fw = []"
  by (simp add: callAnomalies_def processCallMetrics_def checkMetric_def detectAnomaly_def)

lemma no_baseline_new: "baselineMetrics (anomalyDetection new_CallRoutingFramework) = Map.empty"
  by (simp add: new_CallRoutingFramework_def new_AnomalyDetectionSystem_def)

lemma no_baseline_exampleLive: "baselineMetrics (anomalyDetection exampleLive) = Map.empty"
  by (simp add: exampleLive_def new_AnomalyDetectionSystem_def)

lemma storeSession_no_anomalies:
  "callAnomalies (envNow env) fw = [] \<Longrightarrow>
   storeSession env req opt fw
     = fw\<lparr>activeCalls :=
            AList.update (requestId req)
              \<lparr>monitoringId = requestId req, startTime = envNow env,
               monitoredRoute = selectedRoute opt, monitoredMetrics = selectedMetrics opt,
               monitoredAnomalies = []\<rparr>
              (activeCalls fw)\<rparr>"
  by (simp add: storeSession_def)

lemma first_call_succeeds:
  "processCall exampleEnv exampleRequest new_CallRoutingFramework
     = (Inr \<lparr>success = True, resultCallId = ''call-1'', resultRoute = ''route1'',
             encryptedChannel = ''ciphertext'', verificationStatus = Some ''A''\<rparr>,
        exampleLive)"
proof -
  have v: "verified (envVerification exampleEnv)" by (simp add: exampleEnv_def)
  have a: "callAnomalies (envNow exampleEnv) new_CallRoutingFramework = []"
    by (rule callAnomalies_no_baseline [OF no_baseline_new])
  have o: "getOptimalRoute (envMetricsFor exampleEnv) () exampleRequest
     = Inr \<lparr>selectedRoute = ''route1'',
            selectedMetrics = \<lparr>latency = 50, load = 0.2, reliability = 0.98\<rparr>,
            selectedWeight = 0.834\<rparr>"
    by (simp add: exampleEnv_def getOptimalRoute_equalMetrics)
  show ?thesis
    unfolding processCall_logged [OF v a o] storeSession_no_anomalies [OF a]
    by (simp add: exampleEnv_def exampleRequest_def exampleLive_def new_CallRoutingFramework_def)
qed

lemma reachable_exampleLive: "reachable exampleLive"
  using reachable_processCall [OF reachable_new, of exampleEnv exampleRequest]
  by (simp add: first_call_succeeds)

lemma second_call_succeeds:
  "processCall laterEnv exampleRequest exampleLive
     = (Inr \<lparr>success = True, resultCallId = ''call-1'', resultRoute = ''route3'',
             encryptedChannel = ''ciphertext'', verificationStatus = Some ''A''\<rparr>,
        exampleLive\<lparr>activeCalls :=
          [(''call-1'',
            \<lparr>monitoringId = ''call-1'', startTime = 2000, monitoredRoute = ''route3'',
             monitoredMetrics = \<lparr>latency = 0, load = 0, reliability = 1\<rparr>,
             monitoredAnomalies = []\<rparr>)]\<rparr>)"
proof -
  have v: "verified (envVerification laterEnv)" by (simp add: laterEnv_def exampleEnv_def)
  have a: "callAnomalies (envNow laterEnv) exampleLive = []"
    by (rule callAnomalies_no_baseline [OF no_baseline_exampleLive])
  have o: "getOptimalRoute (envMetricsFor laterEnv) () exampleRequest
     = Inr \<lparr>selectedRoute = ''route3'',
            selectedMetrics = \<lparr>latency = 0, load = 0, reliability = 1\<rparr>,
            selectedWeight = 1\<rparr>"
    by (simp add: laterEnv_def exampleEnv_def getOptimalRoute_tieMetrics)
  show ?thesis
    unfolding processCall_logged [OF v a o] storeSession_no_anomalies [OF a]
    by (simp add: laterEnv_def exampleEnv_def exampleRequest_def exampleLive_def)
qed

lemma failing_log_call_fails:
  "processCall failingLogEnv exampleRequest new_CallRoutingFramework
     = (Inl (ClientError ''No Living connections''),
        exampleLive\<lparr>systemMetrics := \<lparr>totalCalls = 0, successfulCalls = 0, failedCalls = 1\<rparr>\<rparr>)"
proof -
  have v: "verified (envVerification failingLogEnv)"
    by (simp add: failingLogEnv_def exampleEnv_def)
  have a: "callAnomalies (envNow failingLogEnv) new_CallRoutingFramework = []"
    by (rule callAnomalies_no_baseline [OF no_baseline_new])
  have o: "getOptimalRoute (envMetricsFor failingLogEnv) () exampleRequest
     = Inr \<lparr>selectedRoute = ''route1'',
            selectedMetrics = \<lparr>latency = 50, load = 0.2, reliability = 0.98\<rparr>,
            selectedWeight = 0.834\<rparr>"
    by (simp add: failingLogEnv_def exampleEnv_def getOptimalRoute_equalMetrics)
  show ?thesis
    unfolding processCall_logged [OF v a o] storeSession_no_anomalies [OF a]
    by (simp add: failingLogEnv_def exampleEnv_def exampleRequest_def exampleLive_def
        new_CallRoutingFramework_def)
qed

text \<open>
  C4, as the code has it. In every reachable state the store of live sessions holds at
  most one session per call id. Starting a call does not look for a live session of the
  same id and there is no DuplicateCallError: in any state, whether or not a session of
  the id is live, a call that is verified, finds no anomalies and is logged succeeds, and
  when \<^verbatim>\<open>processCall\<close> succeeds, the session stored under the id is the new one, whatever
  was stored before. Sessions of other ids are never touched, a call rejected at
  verification or as high-risk leaves the store as it was, and \<^verbatim>\<open>endCall\<close> on a live id
  removes that id and nothing else.
\<close>

theorem live_sessions_one_per_id:
  assumes "reachable fw"
  shows "distinct (map fst (activeCalls fw))
       \<and> (verified (envVerification env) \<and> callAnomalies (envNow env) fw = []
            \<and> envLogCall env = None \<longrightarrow>
            (\<exists>started. fst (processCall env req fw) = Inr started
                        \<and> success started \<and> resultCallId started = requestId req))
       \<and> (fst (processCall env req fw) = Inr res \<longrightarrow>
            map_of (activeCalls (snd (processCall env req fw))) (requestId req)
              = Some \<lparr>monitoringId = requestId req, startTime = envNow env,
                      monitoredRoute = resultRoute res,
                      monitoredMetrics = envMetricsFor env (resultRoute res),
                      monitoredAnomalies = []\<rparr>)
       \<and> (k \<noteq> requestId req \<longrightarrow>
            map_of (activeCalls (snd (processCall env req fw))) k = map_of (activeCalls fw) k)
       \<and> (\<not> verified (envVerification env)
            \<or> (callAnomalies (envNow env) fw \<noteq> []
                \<and> level (calculateRiskScore (envNow env) (callAnomalies (envNow env) fw)) = ''high'')
            \<longrightarrow> activeCalls (snd (processCall env req fw)) = activeCalls fw)
       \<and> (callId \<in> fst ` set (activeCalls fw) \<longrightarrow>
            callId \<notin> fst ` set (activeCalls (snd (endCall env' callId fw)))
            \<and> (k \<noteq> callId \<longrightarrow>
                 map_of (activeCalls (snd (endCall env' callId fw))) k = map_of (activeCalls fw) k))"
proof (intro conjI impI)
  show "distinct (map fst (activeCalls fw))"
    using assms by (rule reachable_distinct)
next
  assume h: "verified (envVerification env) \<and> callAnomalies (envNow env) fw = []
            \<and> envLogCall env = None"
  from getOptimalRoute_succeeds [of "envMetricsFor env" "()" req] obtain opt
    where opt: "getOptimalRoute (envMetricsFor env) () req = Inr opt" by blast
  from h have v: "verified (envVerification env)"
    and a: "callAnomalies (envNow env) fw = []" and l: "envLogCall env = None"
    by simp_all
  show "\<exists>started. fst (processCall env req fw) = Inr started
                        \<and> success started \<and> resultCallId started = requestId req"
    using processCall_logged [OF v a opt] l by simp
next
  assume "fst (processCall env req fw) = Inr res"
  then show "map_of (activeCalls (snd (processCall env req fw))) (requestId req)
              = Some \<lparr>monitoringId = requestId req, startTime = envNow env,
                      monitoredRoute = resultRoute res,
                      monitoredMetrics = envMetricsFor env (resultRoute res),
                      monitoredAnomalies = []\<rparr>"
    by (rule processCall_success_session)
next
  assume "k \<noteq> requestId req"
  then show "map_of (activeCalls (snd (processCall env req fw))) k = map_of (activeCalls fw) k"
    by (rule processCall_other)
next
  assume "\<not> verified (envVerification env)
            \<or> (callAnomalies (envNow env) fw \<noteq> []
                \<and> level (calculateRiskScore (envNow env) (callAnomalies (envNow env) fw)) = ''high'')"
  then show "activeCalls (snd (processCall env req fw)) = activeCalls fw"
    using processCall_unverified [of env req fw] processCall_high_risk [of env fw req]
    by (cases "verified (envVerification env)") auto
next
  assume "callId \<in> fst ` set (activeCalls fw)"
  then show "callId \<notin> fst ` set (activeCalls (snd (endCall env' callId fw)))"
    by (simp add: endCall_activeCalls delete_notin_dom)
next
  assume "callId \<in> fst ` set (activeCalls fw)" and "k \<noteq> callId"
  then show "map_of (activeCalls (snd (endCall env' callId fw))) k = map_of (activeCalls fw) k"
    by (simp add: endCall_activeCalls delete_conv')
qed

theorem live_sessions_one_per_id_witness:
  "reachable exampleLive
   \<and> distinct (map fst (activeCalls exampleLive))
   \<and> ''call-1'' \<in> fst ` set (activeCalls exampleLive)
   \<and> verified (envVerification laterEnv)
   \<and> callAnomalies (envNow laterEnv) exampleLive = []
   \<and> envLogCall laterEnv = None
   \<and> (\<exists>started. fst (processCall laterEnv exampleRequest exampleLive) = Inr started
                   \<and> success started \<and> resultCallId started = requestId exampleRequest)
   \<and> fst (processCall laterEnv exampleRequest exampleLive)
       = Inr \<lparr>success = True, resultCallId = ''call-1'', resultRoute = ''route3'',
              encryptedChannel = ''ciphertext'', verificationStatus = Some ''A''\<rparr>
   \<and> map_of (activeCalls (snd (processCall laterEnv exampleRequest exampleLive))) ''call-1''
       = Some \<lparr>monitoringId = ''call-1'', startTime = 2000, monitoredRoute = ''route3'',
               monitoredMetrics = \<lparr>latency = 0, load = 0, reliability = 1\<rparr>,
               monitoredAnomalies = []\<rparr>
   \<and> map_of (activeCalls (snd (processCall laterEnv \<lparr>requestId = ''call-2''\<rparr> exampleLive))) ''call-1''
       = map_of (activeCalls exampleLive) ''call-1''
   \<and> \<not> verified (envVerification unverifiedEnv)
   \<and> activeCalls (snd (processCall unverifiedEnv exampleRequest exampleLive)) = activeCalls exampleLive
   \<and> ''call-1'' \<notin> fst ` set (activeCalls (snd (endCall laterEnv ''call-1'' exampleLive)))"
proof -
  note T = live_sessions_one_per_id [OF reachable_exampleLive]
  have d: "distinct (map fst (activeCalls exampleLive))"
    by (rule T [THEN conjunct1])
  have live: "''call-1'' \<in> fst ` set (activeCalls exampleLive)"
    by (simp add: exampleLive_def)
  have v: "verified (envVerification laterEnv)"
    and l: "envLogCall laterEnv = None"
    by (simp_all add: laterEnv_def exampleEnv_def)
  have a: "callAnomalies (envNow laterEnv) exampleLive = []"
    by (rule callAnomalies_no_baseline [OF no_baseline_exampleLive])
  have accepted: "\<exists>started. fst (processCall laterEnv exampleRequest exampleLive) = Inr started
                   \<and> success started \<and> resultCallId started = requestId exampleRequest"
    using T [of laterEnv exampleRequest, THEN conjunct2, THEN conjunct1] v a l by blast
  have rest: "fst (processCall laterEnv exampleRequest exampleLive)
       = Inr \<lparr>success = True, resultCallId = ''call-1'', resultRoute = ''route3'',
              encryptedChannel = ''ciphertext'', verificationStatus = Some ''A''\<rparr>
   \<and> map_of (activeCalls (snd (processCall laterEnv exampleRequest exampleLive))) ''call-1''
       = Some \<lparr>monitoringId = ''call-1'', startTime = 2000, monitoredRoute = ''route3'',
               monitoredMetrics = \<lparr>latency = 0, load = 0, reliability = 1\<rparr>,
               monitoredAnomalies = []\<rparr>
   \<and> map_of (activeCalls (snd (processCall laterEnv \<lparr>requestId = ''call-2''\<rparr> exampleLive))) ''call-1''
       = map_of (activeCalls exampleLive) ''call-1''
   \<and> \<not> verified (envVerification unverifiedEnv)
   \<and> activeCalls (snd (processCall unverifiedEnv exampleRequest exampleLive)) = activeCalls exampleLive
   \<and> ''call-1'' \<notin> fst ` set (activeCalls (snd (endCall laterEnv ''call-1'' exampleLive)))"
    using
      T [THEN conjunct2, THEN conjunct2, of laterEnv exampleRequest
        "\<lparr>success = True, resultCallId = ''call-1'', resultRoute = ''route3'',
              encryptedChannel = ''ciphertext'', verificationStatus = Some ''A''\<rparr>"
        "''call-2''" "''call-1''" laterEnv]
      T [THEN conjunct2, THEN conjunct2, of laterEnv "\<lparr>requestId = ''call-2''\<rparr>"
        "\<lparr>success = True, resultCallId = ''call-2'', resultRoute = ''route3'',
              encryptedChannel = ''ciphertext'', verificationStatus = Some ''A''\<rparr>"
        "''call-1''" "''call-1''" laterEnv]
      T [THEN conjunct2, THEN conjunct2, of unverifiedEnv exampleRequest
        "\<lparr>success = True, resultCallId = ''call-1'', resultRoute = ''route3'',
              encryptedChannel = ''ciphertext'', verificationStatus = Some ''A''\<rparr>"
        "''call-2''" "''call-1''" laterEnv]
    by (simp add: second_call_succeeds)
       (simp add: exampleLive_def exampleRequest_def laterEnv_def exampleEnv_def tieMetrics_def
          unverifiedEnv_def failingLogEnv_def)
  from reachable_exampleLive d live v a l accepted rest show ?thesis
    by blast
qed

text \<open>
  C4, as the spec states it, fails: with the call \<open>call-1\<close> live since time 1000 on
  route1, a second \<^verbatim>\<open>processCall\<close> for the id \<open>call-1\<close> at time 2000 succeeds and
  replaces the session by one that started at 2000 on route3.
\<close>

theorem duplicate_id_replaces_session:
  "snd (processCall exampleEnv exampleRequest new_CallRoutingFramework) = exampleLive
   \<and> map_of (activeCalls exampleLive) (requestId exampleRequest)
       = Some \<lparr>monitoringId = ''call-1'', startTime = 1000, monitoredRoute = ''route1'',
               monitoredMetrics = \<lparr>latency = 50, load = 0.2, reliability = 0.98\<rparr>,
               monitoredAnomalies = []\<rparr>
   \<and> fst (processCall laterEnv exampleRequest exampleLive)
       = Inr \<lparr>success = True, resultCallId = ''call-1'', resultRoute = ''route3'',
              encryptedChannel = ''ciphertext'', verificationStatus = Some ''A''\<rparr>
   \<and> activeCalls (snd (processCall laterEnv exampleRequest exampleLive))
       = [(''call-1'',
           \<lparr>monitoringId = ''call-1'', startTime = 2000, monitoredRoute = ''route3'',
            monitoredMetrics = \<lparr>latency = 0, load = 0, reliability = 1\<rparr>,
            monitoredAnomalies = []\<rparr>)]"
  by (simp add: first_call_succeeds second_call_succeeds)
     (simp add: exampleLive_def exampleRequest_def)

text \<open>
  C7, as the code has it. \<^verbatim>\<open>logCall\<close> is awaited inside the \<^verbatim>\<open>try\<close> block of
  \<^verbatim>\<open>processCall\<close> and unguarded in \<^verbatim>\<open>endCall\<close>, so its failure is the outcome of the call:
  a call that is verified and has no anomalies fails with the error of the log and is
  counted as failed, where it succeeds and is not counted when the log succeeds;
  \<^verbatim>\<open>endCall\<close> on a live call fails with the error of the log, where it returns the
  summary when the log succeeds. A call that does not reach the logging step has the same
  outcome whatever the log would do.
\<close>

theorem logCall_failure_propagates:
  assumes "envLogCall env = Some e"
  shows "(verified (envVerification env) \<and> callAnomalies (envNow env) fw = [] \<longrightarrow>
            fst (processCall env req fw) = Inl e
            \<and> failedCalls (systemMetrics (snd (processCall env req fw)))
                = failedCalls (systemMetrics fw) + 1
            \<and> (\<exists>res. fst (processCall (env\<lparr>envLogCall := None\<rparr>) req fw) = Inr res)
            \<and> failedCalls (systemMetrics (snd (processCall (env\<lparr>envLogCall := None\<rparr>) req fw)))
                = failedCalls (systemMetrics fw))
       \<and> (callId \<in> fst ` set (activeCalls fw) \<longrightarrow>
            fst (endCall env callId fw) = Inl e
            \<and> (\<exists>summary. fst (endCall (env\<lparr>envLogCall := None\<rparr>) callId fw) = Inr summary))
       \<and> (\<not> (verified (envVerification env) \<and> callAnomalies (envNow env) fw = []) \<longrightarrow>
            processCall env req fw = processCall (env\<lparr>envLogCall := None\<rparr>) req fw)"
proof -
  from getOptimalRoute_succeeds [of "envMetricsFor env" "()" req] obtain opt
    where opt: "getOptimalRoute (envMetricsFor env) () req = Inr opt" by blast
  let ?env' = "env\<lparr>envLogCall := None\<rparr>"
  have opt': "getOptimalRoute (envMetricsFor ?env') () req = Inr opt"
    using opt by simp
  have reached: "fst (processCall env req fw) = Inl e
            \<and> failedCalls (systemMetrics (snd (processCall env req fw)))
                = failedCalls (systemMetrics fw) + 1
            \<and> (\<exists>res. fst (processCall ?env' req fw) = Inr res)
            \<and> failedCalls (systemMetrics (snd (processCall ?env' req fw)))
                = failedCalls (systemMetrics fw)"
    if v: "verified (envVerification env)" and a: "callAnomalies (envNow env) fw = []"
  proof -
    have v': "verified (envVerification ?env')" and a': "callAnomalies (envNow ?env') fw = []"
      using v a by simp_all
    show ?thesis
      using processCall_logged [OF v a opt] processCall_logged [OF v' a' opt'] assms
      by (simp add: storeSession_def)
  qed
  have ended: "fst (endCall env callId fw) = Inl e
            \<and> (\<exists>summary. fst (endCall ?env' callId fw) = Inr summary)"
    if live: "callId \<in> fst ` set (activeCalls fw)"
    using endCall_live [OF live, of env] endCall_live [OF live, of ?env'] assms
    by auto
  have before: "processCall env req fw = processCall ?env' req fw"
    if n: "\<not> (verified (envVerification env) \<and> callAnomalies (envNow env) fw = [])"
  proof (cases "verified (envVerification env)")
    case False
    then show ?thesis by (simp add: processCall_unverified)
  next
    case True
    with n have a: "callAnomalies (envNow env) fw \<noteq> []" by simp
    have v': "verified (envVerification ?env')" using True by simp
    show ?thesis
      using processCallTry_verified [OF True opt, of fw] processCallTry_verified [OF v' opt', of fw] a
      by (simp add: processCall_def storeSession_def)
  qed
  from reached ended before show ?thesis by blast
qed

theorem logCall_failure_propagates_witness:
  "envLogCall failingLogEnv = Some (ClientError ''No Living connections'')
   \<and> verified (envVerification failingLogEnv)
   \<and> callAnomalies (envNow failingLogEnv) exampleLive = []
   \<and> fst (processCall failingLogEnv exampleRequest exampleLive)
       = Inl (ClientError ''No Living connections'')
   \<and> failedCalls (systemMetrics (snd (processCall failingLogEnv exampleRequest exampleLive))) = 1
   \<and> ''call-1'' \<in> fst ` set (activeCalls exampleLive)
   \<and> fst (endCall failingLogEnv ''call-1'' exampleLive) = Inl (ClientError ''No Living connections'')
   \<and> envLogCall unverifiedEnv = Some (ClientError ''No Living connections'')
   \<and> \<not> verified (envVerification unverifiedEnv)
   \<and> processCall unverifiedEnv exampleRequest exampleLive
       = processCall (unverifiedEnv\<lparr>envLogCall := None\<rparr>) exampleRequest exampleLive"
proof -
  have l: "envLogCall failingLogEnv = Some (ClientError ''No Living connections'')"
    by (simp add: failingLogEnv_def)
  have l': "envLogCall unverifiedEnv = Some (ClientError ''No Living connections'')"
    by (simp add: unverifiedEnv_def failingLogEnv_def)
  have v: "verified (envVerification failingLogEnv)"
    by (simp add: failingLogEnv_def exampleEnv_def)
  have n: "\<not> verified (envVerification unverifiedEnv)"
    by (simp add: unverifiedEnv_def)
  have a: "callAnomalies (envNow failingLogEnv) exampleLive = []"
    by (rule callAnomalies_no_baseline [OF no_baseline_exampleLive])
  have live: "''call-1'' \<in> fst ` set (activeCalls exampleLive)"
    by (simp add: exampleLive_def)
  have z: "failedCalls (systemMetrics exampleLive) = 0"
    by (simp add: exampleLive_def)
  show ?thesis
    using l l' v n a live z
      logCall_failure_propagates [OF l, of exampleLive exampleRequest "''call-1''"]
      logCall_failure_propagates [OF l', of exampleLive exampleRequest "''call-1''"]
    by simp
qed

text \<open>
  C7, as the spec states it, fails: the same call succeeds with a working log and fails,
  counted as a failed call, with a failing log; \<^verbatim>\<open>endCall\<close> fails likewise, after the
  session has been removed.
\<close>

theorem logging_failure_fails_the_call:
  "fst (processCall failingLogEnv exampleRequest new_CallRoutingFramework)
     = Inl (ClientError ''No Living connections'')
   \<and> failedCalls (systemMetrics (snd (processCall failingLogEnv exampleRequest new_CallRoutingFramework)))
       = 1
   \<and> fst (processCall exampleEnv exampleRequest new_CallRoutingFramework)
       = Inr \<lparr>success = True, resultCallId = ''call-1'', resultRoute = ''route1'',
              encryptedChannel = ''ciphertext'', verificationStatus = Some ''A''\<rparr>
   \<and> failedCalls (systemMetrics (snd (processCall exampleEnv exampleRequest new_CallRoutingFramework)))
       = 0
   \<and> endCall failingLogEnv ''call-1'' exampleLive
       = (Inl (ClientError ''No Living connections''), exampleLive\<lparr>activeCalls := []\<rparr>)
   \<and> fst (endCall exampleEnv ''call-1'' exampleLive)
       = Inr \<lparr>summaryCallId = ''call-1'', duration = 0, summaryRoute = ''route1'',
              summaryMetrics = \<lparr>latency = 50, load = 0.2, reliability = 0.98\<rparr>\<rparr>"
  by (simp add: first_call_succeeds failing_log_call_fails)
     (simp add: exampleLive_def endCall_def failingLogEnv_def exampleEnv_def)

end
